theory Spec2Isabelle
  imports Main
begin

section \<open>The deploy command of rell: a shallow embedding\<close>

text \<open>
  The command \<^verbatim>\<open>deploy\<close> (package main of the third source part) drives a Docker
  daemon, the local file system, an nginx process and an HTTP health endpoint.
  None of these is code of the repository, so each of them is an oracle here: a
  function from the history of calls made so far to the answer of the next call.
  Every theorem below holds for every such oracle, hence for every behaviour of
  the daemon, the disk and the network that is a function of what the program
  did before. The file system is kept as a finite map from paths to contents,
  on which an oracle injects failures. Each call is written to a trace together
  with the error it returned, so that "this call was never issued" is a
  statement about the trace.

  Output on stdout (the two \<^verbatim>\<open>spew.Dump\<close> calls of \<^verbatim>\<open>killExcept\<close>) is not modelled.
\<close>

subsection \<open>Errors\<close>

text \<open>
  Go's \<^verbatim>\<open>error\<close> values. \<open>ErrNotFound\<close> is \<^verbatim>\<open>dockerclient.ErrNotFound\<close>, \<open>ErrNotExist\<close>
  is what the file system answers for a missing path, \<open>NumError f num e\<close> is
  \<^verbatim>\<open>*strconv.NumError\<close> with its function, its input and \<^verbatim>\<open>strconv.ErrSyntax\<close> or
  \<^verbatim>\<open>strconv.ErrRange\<close>, \<open>Errno\<close> stands for every other error of a collaborator
  (with its message), \<open>multiError\<close> is the slice
  type of the source and \<open>Wrapped\<close> is \<^verbatim>\<open>*stackerr.Error\<close> around its underlying error.
  A nil error is \<open>None\<close> of type \<open>err option\<close>.
\<close>

datatype err =
    ErrNotFound
  | ErrNotExist
  | ErrSyntax
  | ErrRange
  | NumError string string err
  | Errno string
  | multiError "err list"
  | Wrapped err

text \<open>
  \<^verbatim>\<open>stackerr.Wrap\<close>: nil stays nil, an error that is already a \<^verbatim>\<open>*stackerr.Error\<close> is
  returned as it is (with one more stack recorded), any other error becomes the
  underlying error of a fresh \<^verbatim>\<open>*stackerr.Error\<close>. Stack traces are not modelled.
\<close>

fun Wrap :: "err \<Rightarrow> err" where
  "Wrap (Wrapped e) = Wrapped e"
| "Wrap e = Wrapped e"

fun underlying :: "err \<Rightarrow> err" where
  "underlying (Wrapped e) = e"
| "underlying e = e"

text \<open>A value computed by code that may panic (a Go run-time panic unwinds every caller).\<close>

datatype 'a outcome = Val 'a | Panic

subsection \<open>Constants of the source\<close>

definition infoCheckMaxWait :: nat where
  "infoCheckMaxWait = 60000000000"  \<comment> \<open>\<^verbatim>\<open>time.Minute\<close>, in nanoseconds\<close>

definition infoCheckSleep :: nat where
  "infoCheckSleep = 25000000"  \<comment> \<open>\<^verbatim>\<open>25 * time.Millisecond\<close>\<close>

definition lastDeployTagFile :: string where
  "lastDeployTagFile = ''/var/lib/rell/production-tag''"

definition nginxConfDir :: string where
  "nginxConfDir = ''/etc/nginx/server''"

definition nginxPidFile :: string where
  "nginxPidFile = ''/run/nginx.pid''"

definition prodNginxConfFile :: string where
  "prodNginxConfFile = ''rell-prod.conf''"

definition redisContainerLink :: string where
  "redisContainerLink = ''redis:redis''"

definition redisContainerName :: string where
  "redisContainerName = ''redis''"

definition redisDataBind :: string where
  "redisDataBind = ''/var/lib/redis:/data''"

definition redisImage :: string where
  "redisImage = ''daaku/redis''"

definition rellContainerNamePrefix :: string where
  "rellContainerNamePrefix = ''rell-''"

definition rellEnvFile :: string where
  "rellEnvFile = ''/etc/conf.d/rell''"

definition rellImage :: string where
  "rellImage = ''daaku/rell''"

definition rellPort :: nat where
  "rellPort = 43600"

definition rellUser :: string where
  "rellUser = ''15151''"

definition stopTimeout :: nat where
  "stopTimeout = 30000000000"  \<comment> \<open>\<^verbatim>\<open>30 * time.Second\<close>\<close>

subsection \<open>Strings and paths\<close>

text \<open>Go strings are byte strings; so is \<open>string\<close>. \<^verbatim>\<open>strings.HasPrefix(s, p)\<close>:\<close>

definition HasPrefix :: "string \<Rightarrow> string \<Rightarrow> bool" where
  "HasPrefix s p = (take (length p) s = p)"

text \<open>\<^verbatim>\<open>strings.Join\<close>.\<close>

fun Join :: "string list \<Rightarrow> string \<Rightarrow> string" where
  "Join [] sep = []"
| "Join [x] sep = x"
| "Join (x # y # xs) sep = x @ sep @ Join (y # xs) sep"

text \<open>
  \<^verbatim>\<open>strings.TrimSpace\<close> removes the leading and the trailing white space of Unicode.
  These are the UTF-8 encodings of the code points with the property White_Space:
  U+0009 to U+000D, U+0020, U+0085, U+00A0, U+1680, U+2000 to U+200A, U+2028,
  U+2029, U+202F, U+205F and U+3000. Each encoding starts with a byte that is no
  continuation byte and no encoding is the start of another, so the white space
  that Go decodes at either end of a string is one of these byte sequences there.
\<close>

definition spaces :: "string list" where
  "spaces =
    [[CHR 0x09], [CHR 0x0A], [CHR 0x0B], [CHR 0x0C], [CHR 0x0D], [CHR 0x20],
     [CHR 0xC2, CHR 0x85], [CHR 0xC2, CHR 0xA0], [CHR 0xE1, CHR 0x9A, CHR 0x80],
     [CHR 0xE2, CHR 0x80, CHR 0x80], [CHR 0xE2, CHR 0x80, CHR 0x81],
     [CHR 0xE2, CHR 0x80, CHR 0x82], [CHR 0xE2, CHR 0x80, CHR 0x83],
     [CHR 0xE2, CHR 0x80, CHR 0x84], [CHR 0xE2, CHR 0x80, CHR 0x85],
     [CHR 0xE2, CHR 0x80, CHR 0x86], [CHR 0xE2, CHR 0x80, CHR 0x87],
     [CHR 0xE2, CHR 0x80, CHR 0x88], [CHR 0xE2, CHR 0x80, CHR 0x89],
     [CHR 0xE2, CHR 0x80, CHR 0x8A], [CHR 0xE2, CHR 0x80, CHR 0xA8],
     [CHR 0xE2, CHR 0x80, CHR 0xA9], [CHR 0xE2, CHR 0x80, CHR 0xAF],
     [CHR 0xE2, CHR 0x81, CHR 0x9F], [CHR 0xE3, CHR 0x80, CHR 0x80]]"

function trimPrefixes :: "string list \<Rightarrow> string \<Rightarrow> string" where
  "trimPrefixes qs s =
     (case find (\<lambda>q. q \<noteq> [] \<and> take (length q) s = q) qs of
        None \<Rightarrow> s
      | Some q \<Rightarrow> trimPrefixes qs (drop (length q) s))"
  by pat_completeness auto
termination
proof (relation "measure (\<lambda>(qs, s). length s)")
  show "wf (measure (\<lambda>(qs, s). length s))"
    by simp
next
  fix qs :: "string list" and s q :: string
  assume "find (\<lambda>q. q \<noteq> [] \<and> take (length q) s = q) qs = Some q"
  then have "q \<noteq> []" and "take (length q) s = q"
    by (auto simp: find_Some_iff)
  then have "s \<noteq> []"
    by auto
  with \<open>q \<noteq> []\<close> show "((qs, drop (length q) s), (qs, s)) \<in> measure (\<lambda>(qs, s). length s)"
    by simp
qed

declare trimPrefixes.simps [simp del]

definition TrimSpace :: "string \<Rightarrow> string" where
  "TrimSpace s = rev (trimPrefixes (map rev spaces) (rev (trimPrefixes spaces s)))"

text \<open>\<^verbatim>\<open>bytes.Split(contents, "\n")\<close>: the pieces between line feeds, empty pieces kept.\<close>

fun Split_lines :: "string \<Rightarrow> string list" where
  "Split_lines [] = [[]]"
| "Split_lines (c # cs) =
     (if c = CHR 0x0A then [] # Split_lines cs
      else (case Split_lines cs of l # ls \<Rightarrow> (c # l) # ls | [] \<Rightarrow> [[c]]))"

text \<open>Decimal digits of a number, as \<^verbatim>\<open>%d\<close> and \<^verbatim>\<open>{{.Port}}\<close> print it.\<close>

function Itoa :: "nat \<Rightarrow> string" where
  "Itoa n = (if n < 10 then [char_of (48 + n)] else Itoa (n div 10) @ [char_of (48 + n mod 10)])"
  by pat_completeness auto
termination
  by (relation "measure (\<lambda>n. n)") auto

declare Itoa.simps [simp del]

text \<open>
  \<^verbatim>\<open>strconv.Atoi\<close> on a 64-bit platform: an optional sign, then decimal digits read
  from the left into an unsigned 64-bit number. A byte that is no digit is a
  syntax error, a number that no longer fits is a range error, whichever comes
  first; so is a number beyond the range of \<^verbatim>\<open>int\<close> for its sign. The error names
  the function and the whole input.
\<close>

definition isDigit :: "char \<Rightarrow> bool" where
  "isDigit c = ((48::nat) \<le> of_char c \<and> of_char c \<le> (57::nat))"

fun scanDigits :: "int \<Rightarrow> string \<Rightarrow> err + int" where
  "scanDigits n [] = Inr n"
| "scanDigits n (c # cs) =
     (if \<not> isDigit c then Inl ErrSyntax
      else if 2 ^ 64 - 1 < 10 * n + (int (of_char c) - 48) then Inl ErrRange
      else scanDigits (10 * n + (int (of_char c) - 48)) cs)"

definition Atoi :: "string \<Rightarrow> err + int" where
  "Atoi s =
     (let neg = (s \<noteq> [] \<and> hd s = CHR ''-'');
          ds = (if s \<noteq> [] \<and> (hd s = CHR ''-'' \<or> hd s = CHR ''+'') then tl s else s)
      in if ds = [] then Inl (NumError ''Atoi'' s ErrSyntax)
         else (case scanDigits 0 ds of
                 Inl e \<Rightarrow> Inl (NumError ''Atoi'' s e)
               | Inr un \<Rightarrow>
                   if \<not> neg \<and> 2 ^ 63 \<le> un then Inl (NumError ''Atoi'' s ErrRange)
                   else if neg \<and> 2 ^ 63 < un then Inl (NumError ''Atoi'' s ErrRange)
                   else Inr (if neg then - un else un)))"

text \<open>
  \<^verbatim>\<open>filepath.Clean\<close> on Unix. The path is cut at its separators; empty elements and
  \<^verbatim>\<open>.\<close> are dropped; \<^verbatim>\<open>..\<close> takes away the element before it, is dropped at the
  root and is kept where a relative path has nothing left to take away. The
  elements are joined again, after the root when the path has one; nothing left
  is \<^verbatim>\<open>.\<close>.
\<close>

fun splitSlash :: "string \<Rightarrow> string list" where
  "splitSlash [] = [[]]"
| "splitSlash (c # cs) =
     (if c = CHR ''/'' then [] # splitSlash cs
      else (case splitSlash cs of l # ls \<Rightarrow> (c # l) # ls | [] \<Rightarrow> [[c]]))"

text \<open>The elements kept so far are in \<open>acc\<close>, the last one first.\<close>

fun cleanElems :: "bool \<Rightarrow> string list \<Rightarrow> string list \<Rightarrow> string list" where
  "cleanElems rooted acc [] = rev acc"
| "cleanElems rooted acc (c # cs) =
     (if c = [] \<or> c = ''.'' then cleanElems rooted acc cs
      else if c = ''..'' then
        (case acc of
           a # acc' \<Rightarrow>
             if a = ''..'' then cleanElems rooted (c # acc) cs else cleanElems rooted acc' cs
         | [] \<Rightarrow> if rooted then cleanElems rooted [] cs else cleanElems rooted [c] cs)
      else cleanElems rooted (c # acc) cs)"

definition Clean :: "string \<Rightarrow> string" where
  "Clean p =
     (let rooted = (p \<noteq> [] \<and> hd p = CHR ''/'');
          out = (if rooted then ''/'' else []) @ Join (cleanElems rooted [] (splitSlash p)) ''/''
      in if out = [] then ''.'' else out)"

text \<open>
  \<^verbatim>\<open>filepath.Join\<close> of two elements: empty elements are left out, the others are
  joined by a separator and the result is cleaned; no element at all gives the
  empty string.
\<close>

definition filepath_Join :: "string \<Rightarrow> string \<Rightarrow> string" where
  "filepath_Join dir file =
     (let elems = filter (\<lambda>e. e \<noteq> []) [dir, file]
      in if elems = [] then [] else Clean (Join elems ''/''))"

text \<open>\<^verbatim>\<open>filepath.Dir\<close>: the path up to its last separator, cleaned.\<close>

definition filepath_Dir :: "string \<Rightarrow> string" where
  "filepath_Dir p = Clean (rev (dropWhile (\<lambda>c. c \<noteq> CHR ''/'') (rev p)))"

subsection \<open>Data of the Docker client\<close>

record ContainerInfo =
  Running :: bool  \<comment> \<open>\<^verbatim>\<open>ci.State.Running\<close>\<close>
  IpAddress :: string  \<comment> \<open>\<^verbatim>\<open>ci.NetworkSettings.IpAddress\<close>\<close>

text \<open>An entry of \<^verbatim>\<open>ListContainers\<close>: \<^verbatim>\<open>c.Id\<close>, \<^verbatim>\<open>c.Names\<close>, \<^verbatim>\<open>c.Image\<close>.\<close>

record Container =
  Id_c :: string
  Names :: "string list"
  Image_c :: string

record ContainerConfig =
  User :: string
  Image_cfg :: string
  Env :: "string list"

record HostConfig =
  Binds :: "string list"
  Links :: "string list"

datatype DockerClient = DockerClient string

subsection \<open>Calls, the trace and the oracles\<close>

datatype call =
    Dial string  \<comment> \<open>\<^verbatim>\<open>dockerclient.NewDockerClient(url, nil)\<close>\<close>
  | Inspect string
  | Remove string
  | Create ContainerConfig string
  | Start string HostConfig
  | Stop string nat
  | ListAll bool
  | ReadFile string
  | CreateFile string  \<comment> \<open>\<^verbatim>\<open>os.Create\<close>\<close>
  | WriteFile string string  \<comment> \<open>a template's \<^verbatim>\<open>Execute\<close> or \<^verbatim>\<open>fmt.Fprint\<close> on an open file\<close>
  | CloseFile string
  | RemoveFile string  \<comment> \<open>\<^verbatim>\<open>os.Remove\<close>\<close>
  | MkdirAll string
  | Head string  \<comment> \<open>\<^verbatim>\<open>http.Head\<close>\<close>
  | Sleep nat
  | FindProcess int
  | Signal int  \<comment> \<open>\<^verbatim>\<open>process.Signal(syscall.SIGHUP)\<close>\<close>

text \<open>A call and the error it returned (\<open>None\<close>: it succeeded).\<close>

datatype event = Ev call "err option"

fun call_of :: "event \<Rightarrow> call" where
  "call_of (Ev c r) = c"

fun result_of :: "event \<Rightarrow> err option" where
  "result_of (Ev c r) = r"

text \<open>
  The collaborators. \<open>on_fault\<close> decides for every call that returns nothing but
  an error; \<open>on_short\<close> is the number of bytes a failing write got to disk;
  \<open>on_head\<close> gives the error of a probe and the time the probe took.
\<close>

record env =
  on_fault :: "event list \<Rightarrow> call \<Rightarrow> err option"
  on_short :: "event list \<Rightarrow> nat"
  on_dial :: "event list \<Rightarrow> string \<Rightarrow> err + DockerClient"
  on_inspect :: "event list \<Rightarrow> string \<Rightarrow> err + ContainerInfo"
  on_create :: "event list \<Rightarrow> ContainerConfig \<Rightarrow> string \<Rightarrow> err + string"
  on_list :: "event list \<Rightarrow> bool \<Rightarrow> err + Container list"
  on_head :: "event list \<Rightarrow> string \<Rightarrow> err option \<times> nat"

subsection \<open>The state: a Deploy value and the world around it\<close>

record Deploy =
  DockerURL :: string
  ServerSuffix :: string
  CertFile :: string
  KeyFile :: string
  client :: "DockerClient option"
  clientErr :: "err option"
  clientOnce :: bool  \<comment> \<open>whether \<^verbatim>\<open>clientOnce.Do\<close> has run its function\<close>

record state =
  deploy :: Deploy
  trace :: "event list"  \<comment> \<open>oldest call first\<close>
  files :: "string \<rightharpoonup> string"
  clock :: nat  \<comment> \<open>\<^verbatim>\<open>time.Now()\<close>, in nanoseconds\<close>

definition record_call :: "call \<Rightarrow> err option \<Rightarrow> state \<Rightarrow> state" where
  "record_call c r s = s\<lparr>trace := trace s @ [Ev c r]\<rparr>"

text \<open>A call that returns only an error and changes nothing the program reads.\<close>

definition plain_call :: "env \<Rightarrow> call \<Rightarrow> state \<Rightarrow> err option \<times> state" where
  "plain_call E c s = (let r = on_fault E (trace s) c in (r, record_call c r s))"

definition err_of :: "err + 'a \<Rightarrow> err option" where
  "err_of r = (case r of Inl e \<Rightarrow> Some e | Inr v \<Rightarrow> None)"

subsubsection \<open>Docker\<close>

definition InspectContainer :: "env \<Rightarrow> string \<Rightarrow> state \<Rightarrow> (err + ContainerInfo) \<times> state" where
  "InspectContainer E name s =
     (let r = on_inspect E (trace s) name in (r, record_call (Inspect name) (err_of r) s))"

definition RemoveContainer :: "env \<Rightarrow> string \<Rightarrow> state \<Rightarrow> err option \<times> state" where
  "RemoveContainer E x s = plain_call E (Remove x) s"

definition CreateContainer ::
  "env \<Rightarrow> ContainerConfig \<Rightarrow> string \<Rightarrow> state \<Rightarrow> (err + string) \<times> state" where
  "CreateContainer E cfg name s =
     (let r = on_create E (trace s) cfg name in (r, record_call (Create cfg name) (err_of r) s))"

definition StartContainer :: "env \<Rightarrow> string \<Rightarrow> HostConfig \<Rightarrow> state \<Rightarrow> err option \<times> state" where
  "StartContainer E x hc s = plain_call E (Start x hc) s"

definition StopContainer :: "env \<Rightarrow> string \<Rightarrow> nat \<Rightarrow> state \<Rightarrow> err option \<times> state" where
  "StopContainer E x secs s = plain_call E (Stop x secs) s"

definition ListContainers :: "env \<Rightarrow> bool \<Rightarrow> state \<Rightarrow> (err + Container list) \<times> state" where
  "ListContainers E all s =
     (let r = on_list E (trace s) all in (r, record_call (ListAll all) (err_of r) s))"

subsubsection \<open>Files\<close>

text \<open>
  An open \<^verbatim>\<open>*os.File\<close> is named by its path: each function of the source holds
  one file at a time. \<^verbatim>\<open>os.Create\<close> truncates; a write appends, and a failing
  write leaves the bytes it got to disk.
\<close>

definition os_Create :: "env \<Rightarrow> string \<Rightarrow> state \<Rightarrow> err option \<times> state" where
  "os_Create E p s =
     (case on_fault E (trace s) (CreateFile p) of
        Some e \<Rightarrow> (Some e, record_call (CreateFile p) (Some e) s)
      | None \<Rightarrow> (None, record_call (CreateFile p) None (s\<lparr>files := (files s)(p \<mapsto> [])\<rparr>)))"

definition appendTo :: "(string \<rightharpoonup> string) \<Rightarrow> string \<Rightarrow> string \<Rightarrow> (string \<rightharpoonup> string)" where
  "appendTo fs p bytes = fs(p \<mapsto> (case fs p of None \<Rightarrow> bytes | Some old \<Rightarrow> old @ bytes))"

definition file_Write :: "env \<Rightarrow> string \<Rightarrow> string \<Rightarrow> state \<Rightarrow> err option \<times> state" where
  "file_Write E p bytes s =
     (case on_fault E (trace s) (WriteFile p bytes) of
        Some e \<Rightarrow>
          (Some e, record_call (WriteFile p bytes) (Some e)
                     (s\<lparr>files := appendTo (files s) p (take (on_short E (trace s)) bytes)\<rparr>))
      | None \<Rightarrow>
          (None, record_call (WriteFile p bytes) None (s\<lparr>files := appendTo (files s) p bytes\<rparr>)))"

definition file_Close :: "env \<Rightarrow> string \<Rightarrow> state \<Rightarrow> err option \<times> state" where
  "file_Close E p s = plain_call E (CloseFile p) s"

definition os_Remove :: "env \<Rightarrow> string \<Rightarrow> state \<Rightarrow> err option \<times> state" where
  "os_Remove E p s =
     (case on_fault E (trace s) (RemoveFile p) of
        Some e \<Rightarrow> (Some e, record_call (RemoveFile p) (Some e) s)
      | None \<Rightarrow>
          (case files s p of
             None \<Rightarrow> (Some ErrNotExist, record_call (RemoveFile p) (Some ErrNotExist) s)
           | Some old \<Rightarrow> (None, record_call (RemoveFile p) None (s\<lparr>files := (files s)(p := None)\<rparr>))))"

definition os_MkdirAll :: "env \<Rightarrow> string \<Rightarrow> state \<Rightarrow> err option \<times> state" where
  "os_MkdirAll E p s = plain_call E (MkdirAll p) s"

definition ioutil_ReadFile :: "env \<Rightarrow> string \<Rightarrow> state \<Rightarrow> (err + string) \<times> state" where
  "ioutil_ReadFile E p s =
     (let r = (case on_fault E (trace s) (ReadFile p) of
                 Some e \<Rightarrow> Inl e
               | None \<Rightarrow> (case files s p of None \<Rightarrow> Inl ErrNotExist | Some c \<Rightarrow> Inr c))
      in (r, record_call (ReadFile p) (err_of r) s))"

subsubsection \<open>Processes, HTTP and time\<close>

definition os_FindProcess :: "env \<Rightarrow> int \<Rightarrow> state \<Rightarrow> err option \<times> state" where
  "os_FindProcess E pid s = plain_call E (FindProcess pid) s"

definition process_Signal :: "env \<Rightarrow> int \<Rightarrow> state \<Rightarrow> err option \<times> state" where
  "process_Signal E pid s = plain_call E (Signal pid) s"

text \<open>A probe takes the time the oracle says; \<^verbatim>\<open>time.Sleep(d)\<close> takes \<open>d\<close>.\<close>

definition http_Head :: "env \<Rightarrow> string \<Rightarrow> state \<Rightarrow> err option \<times> state" where
  "http_Head E u s =
     (case on_head E (trace s) u of
        (r, dur) \<Rightarrow> (r, record_call (Head u) r (s\<lparr>clock := clock s + dur\<rparr>)))"

definition time_Sleep :: "nat \<Rightarrow> state \<Rightarrow> state" where
  "time_Sleep d s = record_call (Sleep d) None (s\<lparr>clock := clock s + d\<rparr>)"

subsection \<open>The functions of the source\<close>

text \<open>
  \<^verbatim>\<open>docker()\<close>: \<^verbatim>\<open>clientOnce.Do\<close> runs its function on the first call only; every
  call returns the stored client and the stored error, wrapped.
\<close>

definition docker :: "env \<Rightarrow> state \<Rightarrow> (DockerClient option \<times> err option) \<times> state" where
  "docker E s =
     (let s' =
        (if clientOnce (deploy s) then s
         else (case on_dial E (trace s) (DockerURL (deploy s)) of
                 Inl e \<Rightarrow>
                   record_call (Dial (DockerURL (deploy s))) (Some e)
                     (s\<lparr>deploy := (deploy s)\<lparr>client := None, clientErr := Some e, clientOnce := True\<rparr>\<rparr>)
               | Inr c \<Rightarrow>
                   record_call (Dial (DockerURL (deploy s))) None
                     (s\<lparr>deploy := (deploy s)\<lparr>client := Some c, clientErr := None, clientOnce := True\<rparr>\<rparr>)))
      in ((client (deploy s'), map_option Wrap (clientErr (deploy s'))), s'))"

definition containerNameForTag :: "string \<Rightarrow> string" where
  "containerNameForTag tag = rellContainerNamePrefix @ tag"

definition containerNginxConfPath :: "string \<Rightarrow> string" where
  "containerNginxConfPath containerName = filepath_Join nginxConfDir (containerName @ ''.conf'')"

text \<open>
  \<^verbatim>\<open>tagFromNames\<close>. The slice expression \<^verbatim>\<open>name[1:]\<close> panics on the empty string
  (slice bounds out of range).
\<close>

fun tagFromNames :: "string list \<Rightarrow> string outcome" where
  "tagFromNames [] = Val []"
| "tagFromNames (name # names) =
     (if name = [] then Panic
      else if HasPrefix (drop 1 name) rellContainerNamePrefix
           then Val (drop (length rellContainerNamePrefix) (drop 1 name))
           else tagFromNames names)"

text \<open>
  The loop of \<^verbatim>\<open>killExcept\<close> over the listed containers, with the errors
  collected so far. \<^verbatim>\<open>int(stopTimeout.Seconds())\<close> is \<open>stopTimeout div 10^9\<close>.
\<close>

fun killLoop ::
  "env \<Rightarrow> string \<Rightarrow> Container list \<Rightarrow> err list \<Rightarrow> state \<Rightarrow> err list outcome \<times> state" where
  "killLoop E tag [] errs s = (Val errs, s)"
| "killLoop E tag (c # cs) errs s =
     (if \<not> HasPrefix (Image_c c) (rellImage @ '':'') then killLoop E tag cs errs s
      else (case tagFromNames (Names c) of
              Panic \<Rightarrow> (Panic, s)
            | Val cTag \<Rightarrow>
                if cTag = tag then killLoop E tag cs errs s
                else (case os_Remove E (containerNginxConfPath (containerNameForTag cTag)) s of
                        (_, s1) \<Rightarrow>
                      (case StopContainer E (Id_c c) (stopTimeout div 1000000000) s1 of
                        (_, s2) \<Rightarrow>
                      (case RemoveContainer E (Id_c c) s2 of
                        (Some err, s3) \<Rightarrow> killLoop E tag cs (errs @ [err]) s3
                      | (None, s3) \<Rightarrow> killLoop E tag cs errs s3)))))"

definition killExcept :: "env \<Rightarrow> string \<Rightarrow> state \<Rightarrow> err option outcome \<times> state" where
  "killExcept E tag s =
     (case docker E s of
        ((_, Some err), s1) \<Rightarrow> (Val (Some err), s1)
      | ((_, None), s1) \<Rightarrow>
          (case ListContainers E True s1 of
             (Inl err, s2) \<Rightarrow> (Val (Some (Wrap err)), s2)
           | (Inr containers, s2) \<Rightarrow>
               (case killLoop E tag containers [] s2 of
                  (Panic, s3) \<Rightarrow> (Panic, s3)
                | (Val errs, s3) \<Rightarrow>
                    if length errs = 0 then (Val None, s3)
                    else if length errs = 1 then (Val (Some (Wrap (errs ! 0))), s3)
                    else (Val (Some (Wrap (multiError errs))), s3))))"

subsubsection \<open>The templates\<close>

text \<open>
  The data of the two anonymous structs and the text of the two templates.
  \<^verbatim>\<open>Execute\<close> of a \<^verbatim>\<open>text/template\<close> writes the text with each field in place
  (strings as they are, the port in decimal); it fails only when a write fails.
\<close>

record tagData =
  t_BackendName :: string
  t_ServerName :: string
  t_IpAddress :: string
  t_Port :: nat
  t_CertFile :: string
  t_KeyFile :: string

record prodData =
  p_ServerSuffix :: string
  p_BackendName :: string
  p_CertFile :: string
  p_KeyFile :: string

definition tagNginxConf :: "tagData \<Rightarrow> string" where
  "tagNginxConf d = concat
     [''upstream '',
      t_BackendName d,
      '' {\<newline>'',
      ''  server               '',
      t_IpAddress d,
      '':'',
      Itoa (t_Port d),
      '';\<newline>'',
      ''}\<newline>'',
      ''server {\<newline>'',
      ''  listen               [::]:80;\<newline>'',
      ''  server_name          '',
      t_ServerName d,
      '';\<newline>'',
      ''  charset              utf-8;\<newline>'',
      ''  access_log           off;\<newline>'',
      ''\<newline>'',
      ''  location / {\<newline>'',
      ''    proxy_pass         http://'',
      t_BackendName d,
      '';\<newline>'',
      ''    proxy_set_header   X-Forwarded-For         $remote_addr;\<newline>'',
      ''    proxy_set_header   X-Forwarded-Proto       http;\<newline>'',
      ''    proxy_set_header   X-Forwarded-Host        $host;\<newline>'',
      ''  }\<newline>'',
      ''}\<newline>'',
      ''server {\<newline>'',
      ''  listen               [::]:443;\<newline>'',
      ''  server_name          '',
      t_ServerName d,
      '';\<newline>'',
      ''  ssl                  on;\<newline>'',
      ''  ssl_certificate      '',
      t_CertFile d,
      '';\<newline>'',
      ''  ssl_certificate_key  '',
      t_KeyFile d,
      '';\<newline>'',
      ''  ssl_prefer_server_ciphers on;\<newline>'',
      ''  ssl_ciphers 'kEECDH+ECDSA+AES128 kEECDH+ECDSA+AES256 kEECDH+AES128 kEECDH+AES256 kEDH+AES128 kEDH+AES256 DES-CBC3-SHA +SHA !aNULL !eNULL !LOW !MD5 !EXP !DSS !PSK !SRP !kECDH !CAMELLIA !RC4 !SEED';\<newline>'',
      ''  ssl_session_cache    shared:SSL:10m;\<newline>'',
      ''  ssl_session_timeout  10m;\<newline>'',
      ''  keepalive_timeout    70;\<newline>'',
      ''  ssl_buffer_size      1400;\<newline>'',
      ''  spdy_headers_comp    0;\<newline>'',
      ''\<newline>'',
      ''  charset              utf-8;\<newline>'',
      ''  access_log           off;\<newline>'',
      ''\<newline>'',
      ''  location / {\<newline>'',
      ''    proxy_pass         http://'',
      t_BackendName d,
      '';\<newline>'',
      ''    proxy_set_header   X-Forwarded-For         $remote_addr;\<newline>'',
      ''    proxy_set_header   X-Forwarded-Proto       https;\<newline>'',
      ''    proxy_set_header   X-Forwarded-Host        $host;\<newline>'',
      ''  }\<newline>'',
      ''}\<newline>'']"

definition prodNginxConf :: "prodData \<Rightarrow> string" where
  "prodNginxConf d = concat
     [''server {\<newline>'',
      ''  listen               [::]:80;\<newline>'',
      ''  server_name          '',
      p_ServerSuffix d,
      '';\<newline>'',
      ''\<newline>'',
      ''  location / {\<newline>'',
      ''    rewrite (.*) http://www.'',
      p_ServerSuffix d,
      ''$1 permanent;\<newline>'',
      ''  }\<newline>'',
      ''}\<newline>'',
      ''server {\<newline>'',
      ''  listen               [::]:443;\<newline>'',
      ''  server_name          '',
      p_ServerSuffix d,
      '';\<newline>'',
      ''  ssl                  on;\<newline>'',
      ''  ssl_certificate      '',
      p_CertFile d,
      '';\<newline>'',
      ''  ssl_certificate_key  '',
      p_KeyFile d,
      '';\<newline>'',
      ''  ssl_prefer_server_ciphers on;\<newline>'',
      ''  ssl_ciphers 'kEECDH+ECDSA+AES128 kEECDH+ECDSA+AES256 kEECDH+AES128 kEECDH+AES256 kEDH+AES128 kEDH+AES256 DES-CBC3-SHA +SHA !aNULL !eNULL !LOW !MD5 !EXP !DSS !PSK !SRP !kECDH !CAMELLIA !RC4 !SEED';\<newline>'',
      ''\<newline>'',
      ''  location / {\<newline>'',
      ''    rewrite (.*) https://www.'',
      p_ServerSuffix d,
      ''$1 permanent;\<newline>'',
      ''  }\<newline>'',
      ''}\<newline>'',
      ''server {\<newline>'',
      ''  listen               [::]:80;\<newline>'',
      ''  server_name          www.'',
      p_ServerSuffix d,
      '';\<newline>'',
      ''  charset              utf-8;\<newline>'',
      ''  access_log           off;\<newline>'',
      ''\<newline>'',
      ''  location / {\<newline>'',
      ''    proxy_pass         http://'',
      p_BackendName d,
      '';\<newline>'',
      ''    proxy_set_header   X-Forwarded-For         $remote_addr;\<newline>'',
      ''    proxy_set_header   X-Forwarded-Proto       http;\<newline>'',
      ''    proxy_set_header   X-Forwarded-Host        $host;\<newline>'',
      ''  }\<newline>'',
      ''}\<newline>'',
      ''server {\<newline>'',
      ''  listen               [::]:443 ssl spdy ipv6only=off;\<newline>'',
      ''  server_name          www.'',
      p_ServerSuffix d,
      '';\<newline>'',
      ''  ssl                  on;\<newline>'',
      ''  ssl_certificate      '',
      p_CertFile d,
      '';\<newline>'',
      ''  ssl_certificate_key  '',
      p_KeyFile d,
      '';\<newline>'',
      ''  ssl_prefer_server_ciphers on;\<newline>'',
      ''  ssl_ciphers 'kEECDH+ECDSA+AES128 kEECDH+ECDSA+AES256 kEECDH+AES128 kEECDH+AES256 kEDH+AES128 kEDH+AES256 DES-CBC3-SHA +SHA !aNULL !eNULL !LOW !MD5 !EXP !DSS !PSK !SRP !kECDH !CAMELLIA !RC4 !SEED';\<newline>'',
      ''  ssl_session_cache    shared:SSL:10m;\<newline>'',
      ''  ssl_session_timeout  10m;\<newline>'',
      ''  keepalive_timeout    70;\<newline>'',
      ''  ssl_buffer_size      1400;\<newline>'',
      ''  spdy_headers_comp    0;\<newline>'',
      ''\<newline>'',
      ''  charset              utf-8;\<newline>'',
      ''  access_log           off;\<newline>'',
      ''\<newline>'',
      ''  location / {\<newline>'',
      ''    proxy_pass         http://'',
      p_BackendName d,
      '';\<newline>'',
      ''    proxy_set_header   X-Forwarded-For         $remote_addr;\<newline>'',
      ''    proxy_set_header   X-Forwarded-Proto       https;\<newline>'',
      ''    proxy_set_header   X-Forwarded-Host        $host;\<newline>'',
      ''  }\<newline>'',
      ''}\<newline>'']"

definition template_Execute ::
  "env \<Rightarrow> ('d \<Rightarrow> string) \<Rightarrow> string \<Rightarrow> 'd \<Rightarrow> state \<Rightarrow> err option \<times> state" where
  "template_Execute E tmpl f d s = file_Write E f (tmpl d) s"

subsubsection \<open>Starting the containers\<close>

text \<open>
  \<^verbatim>\<open>startRedis\<close> and \<^verbatim>\<open>startRell\<close> end in the same way on two paths (the
  container was not found; it was found stopped and has been removed): create
  the container, start it by the id that \<^verbatim>\<open>CreateContainer\<close> returned.
\<close>

definition redisCreateStart :: "env \<Rightarrow> state \<Rightarrow> err option \<times> state" where
  "redisCreateStart E s =
     (case CreateContainer E \<lparr>User = [], Image_cfg = redisImage, Env = []\<rparr> redisContainerName s of
        (Inl err, s1) \<Rightarrow> (Some (Wrap err), s1)
      | (Inr cid, s1) \<Rightarrow>
          (case StartContainer E cid \<lparr>Binds = [redisDataBind], Links = []\<rparr> s1 of
             (Some err, s2) \<Rightarrow> (Some (Wrap err), s2)
           | (None, s2) \<Rightarrow> (None, s2)))"

definition startRedis :: "env \<Rightarrow> state \<Rightarrow> err option \<times> state" where
  "startRedis E s =
     (case docker E s of
        ((_, Some err), s1) \<Rightarrow> (Some err, s1)
      | ((_, None), s1) \<Rightarrow>
          (case InspectContainer E redisContainerName s1 of
             (Inr ci, s2) \<Rightarrow>
               if Running ci then (None, s2)
               else (case RemoveContainer E redisContainerName s2 of
                       (Some err, s3) \<Rightarrow> (Some (Wrap err), s3)
                     | (None, s3) \<Rightarrow> redisCreateStart E s3)
           | (Inl err, s2) \<Rightarrow>
               if err \<noteq> ErrNotFound then (Some (Wrap err), s2)
               else redisCreateStart E s2))"

definition rellEnv :: "env \<Rightarrow> state \<Rightarrow> (err + string list) \<times> state" where
  "rellEnv E s =
     (case ioutil_ReadFile E rellEnvFile s of
        (Inl err, s1) \<Rightarrow> (Inl (Wrap err), s1)
      | (Inr contents, s1) \<Rightarrow>
          (Inr (filter (\<lambda>str. str \<noteq> []) (map TrimSpace (Split_lines contents))), s1))"

definition rellCreateStart :: "env \<Rightarrow> string \<Rightarrow> state \<Rightarrow> err option \<times> state" where
  "rellCreateStart E tag s =
     (case rellEnv E s of
        (Inl err, s1) \<Rightarrow> (Some err, s1)
      | (Inr env, s1) \<Rightarrow>
          (case CreateContainer E
                  \<lparr>User = rellUser, Image_cfg = rellImage @ '':'' @ tag, Env = env\<rparr>
                  (containerNameForTag tag) s1 of
             (Inl err, s2) \<Rightarrow> (Some (Wrap err), s2)
           | (Inr cid, s2) \<Rightarrow>
               (case StartContainer E cid \<lparr>Binds = [], Links = [redisContainerLink]\<rparr> s2 of
                  (Some err, s3) \<Rightarrow> (Some (Wrap err), s3)
                | (None, s3) \<Rightarrow> (None, s3))))"

definition startRell :: "env \<Rightarrow> string \<Rightarrow> state \<Rightarrow> err option \<times> state" where
  "startRell E tag s =
     (case docker E s of
        ((_, Some err), s1) \<Rightarrow> (Some err, s1)
      | ((_, None), s1) \<Rightarrow>
          (case InspectContainer E (containerNameForTag tag) s1 of
             (Inr ci, s2) \<Rightarrow>
               if Running ci then (None, s2)
               else (case RemoveContainer E (containerNameForTag tag) s2 of
                       (Some err, s3) \<Rightarrow> (Some (Wrap err), s3)
                     | (None, s3) \<Rightarrow> rellCreateStart E tag s3)
           | (Inl err, s2) \<Rightarrow>
               if err \<noteq> ErrNotFound then (Some (Wrap err), s2)
               else rellCreateStart E tag s2))"

subsubsection \<open>Writing the configuration\<close>

definition genTagNginxConf :: "env \<Rightarrow> string \<Rightarrow> state \<Rightarrow> err option \<times> state" where
  "genTagNginxConf E tag s =
     (case docker E s of
        ((_, Some err), s1) \<Rightarrow> (Some err, s1)
      | ((_, None), s1) \<Rightarrow>
          (case InspectContainer E (containerNameForTag tag) s1 of
             (Inl err, s2) \<Rightarrow> (Some (Wrap err), s2)
           | (Inr ci, s2) \<Rightarrow>
               (let filename = containerNginxConfPath (containerNameForTag tag);
                    d = \<lparr>t_BackendName = containerNameForTag tag,
                         t_ServerName = tag @ ''.'' @ ServerSuffix (deploy s2),
                         t_IpAddress = IpAddress ci,
                         t_Port = rellPort,
                         t_CertFile = CertFile (deploy s2),
                         t_KeyFile = KeyFile (deploy s2)\<rparr>
                in (case os_Create E filename s2 of
                      (Some err, s3) \<Rightarrow> (Some (Wrap err), s3)
                    | (None, s3) \<Rightarrow>
                        (case template_Execute E tagNginxConf filename d s3 of
                           (Some err, s4) \<Rightarrow>
                             (case file_Close E filename s4 of
                                (_, s5) \<Rightarrow>
                                  (case os_Remove E filename s5 of
                                     (_, s6) \<Rightarrow> (Some (Wrap err), s6)))
                         | (None, s4) \<Rightarrow>
                             (case file_Close E filename s4 of
                                (Some err, s5) \<Rightarrow> (Some (Wrap err), s5)
                              | (None, s5) \<Rightarrow> (None, s5)))))))"

definition switchProd :: "env \<Rightarrow> string \<Rightarrow> state \<Rightarrow> err option \<times> state" where
  "switchProd E tag s =
     (let filename = filepath_Join nginxConfDir prodNginxConfFile;
          d = \<lparr>p_ServerSuffix = ServerSuffix (deploy s),
               p_BackendName = containerNameForTag tag,
               p_CertFile = CertFile (deploy s),
               p_KeyFile = KeyFile (deploy s)\<rparr>
      in (case os_Create E filename s of
            (Some err, s1) \<Rightarrow> (Some (Wrap err), s1)
          | (None, s1) \<Rightarrow>
              (case template_Execute E prodNginxConf filename d s1 of
                 (Some err, s2) \<Rightarrow>
                   (case file_Close E filename s2 of
                      (_, s3) \<Rightarrow>
                        (case os_Remove E filename s3 of
                           (_, s4) \<Rightarrow> (Some (Wrap err), s4)))
               | (None, s2) \<Rightarrow>
                   (case file_Close E filename s2 of
                      (Some err, s3) \<Rightarrow> (Some (Wrap err), s3)
                    | (None, s3) \<Rightarrow>
                        (case os_MkdirAll E (filepath_Dir lastDeployTagFile) s3 of
                           (_, s4) \<Rightarrow>
                             (case os_Create E lastDeployTagFile s4 of
                                (Some err, s5) \<Rightarrow> (Some (Wrap err), s5)
                              | (None, s5) \<Rightarrow>
                                  (case file_Write E lastDeployTagFile tag s5 of
                                     (Some err, s6) \<Rightarrow> (Some (Wrap err), s6)
                                   | (None, s6) \<Rightarrow>
                                       (case file_Close E lastDeployTagFile s6 of
                                          (Some err, s7) \<Rightarrow> (Some (Wrap err), s7)
                                        | (None, s7) \<Rightarrow> (None, s7)))))))))"

subsubsection \<open>Reloading nginx\<close>

definition hupNginx :: "env \<Rightarrow> state \<Rightarrow> err option \<times> state" where
  "hupNginx E s =
     (case ioutil_ReadFile E nginxPidFile s of
        (Inl err, s1) \<Rightarrow> (Some (Wrap err), s1)
      | (Inr pidStr, s1) \<Rightarrow>
          (case Atoi (TrimSpace pidStr) of
             Inl err \<Rightarrow> (Some (Wrap err), s1)
           | Inr pid \<Rightarrow>
               (case os_FindProcess E pid s1 of
                  (Some err, s2) \<Rightarrow> (Some (Wrap err), s2)
                | (None, s2) \<Rightarrow>
                    (case process_Signal E pid s2 of
                       (Some err, s3) \<Rightarrow> (Some (Wrap err), s3)
                     | (None, s3) \<Rightarrow> (None, s3)))))"

subsubsection \<open>Waiting for the release\<close>

text \<open>
  The \<^verbatim>\<open>for\<close> loop of \<^verbatim>\<open>infoCheck\<close>. The deadline is read only after a probe
  that failed; \<^verbatim>\<open>After\<close> is strict.
\<close>

function infoLoop :: "env \<Rightarrow> string \<Rightarrow> nat \<Rightarrow> state \<Rightarrow> err option \<times> state" where
  "infoLoop E u until s =
     (case http_Head E u s of
        (Some err, s1) \<Rightarrow>
          if until < clock s1 then (Some (Wrap err), s1)
          else infoLoop E u until (time_Sleep infoCheckSleep s1)
      | (None, s1) \<Rightarrow> (None, s1))"
  by pat_completeness auto
termination
proof (relation "measure (\<lambda>(E, u, until, s). Suc until - clock s)")
  show "wf (measure (\<lambda>(E, u, until, s). Suc until - clock s))"
    by simp
next
  fix E :: env and u :: string and until :: nat and s x s1 :: state and r err
  assume "(r, s1) = http_Head E u s" and "\<not> until < clock s1"
  then show "((E, u, until, time_Sleep infoCheckSleep s1), (E, u, until, s))
               \<in> measure (\<lambda>(E, u, until, s). Suc until - clock s)"
    by (auto simp: http_Head_def time_Sleep_def record_call_def infoCheckSleep_def
             split: prod.splits)
qed

declare infoLoop.simps [simp del]

definition infoCheck :: "env \<Rightarrow> string \<Rightarrow> state \<Rightarrow> err option \<times> state" where
  "infoCheck E tag s =
     (case docker E s of
        ((_, Some err), s1) \<Rightarrow> (Some err, s1)
      | ((_, None), s1) \<Rightarrow>
          (case InspectContainer E (containerNameForTag tag) s1 of
             (Inl err, s2) \<Rightarrow> (Some (Wrap err), s2)
           | (Inr ci, s2) \<Rightarrow>
               infoLoop E (''http://'' @ IpAddress ci @ '':'' @ Itoa rellPort @ ''/info/'')
                 (clock s2 + infoCheckMaxWait) s2))"

subsubsection \<open>The whole deployment\<close>

definition DeployTag :: "env \<Rightarrow> string \<Rightarrow> bool \<Rightarrow> state \<Rightarrow> err option outcome \<times> state" where
  "DeployTag E tag toProd s =
     (case startRedis E s of
        (Some err, s1) \<Rightarrow> (Val (Some err), s1)
      | (None, s1) \<Rightarrow>
     (case startRell E tag s1 of
        (Some err, s2) \<Rightarrow> (Val (Some err), s2)
      | (None, s2) \<Rightarrow>
     (case genTagNginxConf E tag s2 of
        (Some err, s3) \<Rightarrow> (Val (Some err), s3)
      | (None, s3) \<Rightarrow>
     (case infoCheck E tag s3 of
        (Some err, s4) \<Rightarrow> (Val (Some err), s4)
      | (None, s4) \<Rightarrow>
     (case (if toProd then switchProd E tag s4 else (None, s4)) of
        (Some err, s5) \<Rightarrow> (Val (Some err), s5)
      | (None, s5) \<Rightarrow>
     (case hupNginx E s5 of
        (Some err, s6) \<Rightarrow> (Val (Some err), s6)
      | (None, s6) \<Rightarrow>
          if toProd then killExcept E tag s6 else (Val None, s6)))))))"

text \<open>\<^verbatim>\<open>multiError.Error()\<close>, given the message of each element.\<close>

definition multiError_Error :: "(err \<Rightarrow> string) \<Rightarrow> err list \<Rightarrow> string" where
  "multiError_Error msg m = ''multiple errors: '' @ Join (map msg m) '' | ''"

section \<open>Notions used in the statements\<close>

text \<open>
  A listed container is swept when its image is a release image and its names
  give a tag other than the one to keep. For a swept container the loop issues
  three calls; the errors it collects are those of the removals.
\<close>

definition sweepTarget :: "string \<Rightarrow> Container \<Rightarrow> bool" where
  "sweepTarget tag c =
     (HasPrefix (Image_c c) (rellImage @ '':'') \<and>
      (case tagFromNames (Names c) of Val t \<Rightarrow> t \<noteq> tag | Panic \<Rightarrow> False))"

definition tagOf :: "Container \<Rightarrow> string" where
  "tagOf c = (case tagFromNames (Names c) of Val t \<Rightarrow> t | Panic \<Rightarrow> [])"

definition sweepCalls :: "Container \<Rightarrow> call list" where
  "sweepCalls c =
     [RemoveFile (containerNginxConfPath (containerNameForTag (tagOf c))),
      Stop (Id_c c) 30, Remove (Id_c c)]"

fun removalErrors :: "event list \<Rightarrow> err list" where
  "removalErrors [] = []"
| "removalErrors (Ev (Remove x) (Some e) # evs) = e # removalErrors evs"
| "removalErrors (ev # evs) = removalErrors evs"

definition confPathOf :: "Container \<Rightarrow> string" where
  "confPathOf c = containerNginxConfPath (containerNameForTag (tagOf c))"

subsection \<open>Concrete worlds\<close>

text \<open>The \<^verbatim>\<open>Deploy\<close> value of \<^verbatim>\<open>main\<close> with its defaults, an empty world, and collaborators that never fail.\<close>

definition deploy0 :: Deploy where
  "deploy0 = \<lparr>DockerURL = ''unix:///var/run/docker.sock'', ServerSuffix = ''minetti.fbrell.com'',
              CertFile = ''/etc/nginx/cert/star-minetti-cert.pem'',
              KeyFile = ''/etc/nginx/cert/star-minetti-key.pem'',
              client = None, clientErr = None, clientOnce = False\<rparr>"

definition state0 :: state where
  "state0 = \<lparr>deploy = deploy0, trace = [], files = Map.empty, clock = 0\<rparr>"

definition env0 :: env where
  "env0 = \<lparr>on_fault = (\<lambda>h c. None), on_short = (\<lambda>h. 0),
            on_dial = (\<lambda>h u. Inr (DockerClient u)),
            on_inspect = (\<lambda>h n. Inl ErrNotFound),
            on_create = (\<lambda>h cfg n. Inr (''id-'' @ n)),
            on_list = (\<lambda>h b. Inr []),
            on_head = (\<lambda>h u. (None, 0))\<rparr>"

definition c41 :: Container where
  "c41 = \<lparr>Id_c = ''a41'', Names = [''/rell-v41''], Image_c = ''daaku/rell:v41''\<rparr>"

definition c42 :: Container where
  "c42 = \<lparr>Id_c = ''a42'', Names = [''/rell-v42''], Image_c = ''daaku/rell:v42''\<rparr>"

definition c40 :: Container where
  "c40 = \<lparr>Id_c = ''a40'', Names = [''/rell-v40''], Image_c = ''daaku/rell:v40''\<rparr>"

definition env_sweep :: env where
  "env_sweep = env0\<lparr>on_list := (\<lambda>h b. Inr [c40, c41, c42]),
                    on_fault := (\<lambda>h c. case c of Remove x \<Rightarrow> Some (Errno (''busy '' @ x))
                                              | Stop x n \<Rightarrow> Some (Errno ''no such process'')
                                              | _ \<Rightarrow> None)\<rparr>"

text \<open>A release container without a release name, and one with an empty name.\<close>

definition c_web :: Container where
  "c_web = \<lparr>Id_c = ''b7'', Names = [''/web''], Image_c = ''daaku/rell:v7''\<rparr>"

definition c_noname :: Container where
  "c_noname = \<lparr>Id_c = ''b8'', Names = [[]], Image_c = ''daaku/rell:v8''\<rparr>"

definition env_web :: env where
  "env_web = env0\<lparr>on_list := (\<lambda>h b. Inr [c_web, c42])\<rparr>"

definition env_noname :: env where
  "env_noname = env0\<lparr>on_list := (\<lambda>h b. Inr [c_noname])\<rparr>"

definition state_conf :: state where
  "state_conf = state0\<lparr>files := [''/etc/nginx/server/rell-.conf'' \<mapsto> ''upstream'']\<rparr>"

text \<open>The calls a run has added to the trace.\<close>

definition newEvents :: "state \<Rightarrow> state \<Rightarrow> event list" where
  "newEvents s s' = drop (length (trace s)) (trace s')"

text \<open>The configurations that \<^verbatim>\<open>startRell\<close> and \<^verbatim>\<open>startRedis\<close> pass to the daemon.\<close>

definition rellConfig :: "string \<Rightarrow> string list \<Rightarrow> ContainerConfig" where
  "rellConfig tag env = \<lparr>User = rellUser, Image_cfg = rellImage @ '':'' @ tag, Env = env\<rparr>"

definition rellHost :: HostConfig where
  "rellHost = \<lparr>Binds = [], Links = [redisContainerLink]\<rparr>"

definition redisConfig :: ContainerConfig where
  "redisConfig = \<lparr>User = [], Image_cfg = redisImage, Env = []\<rparr>"

definition redisHost :: HostConfig where
  "redisHost = \<lparr>Binds = [redisDataBind], Links = []\<rparr>"

text \<open>A host with the environment file and the pid file; daemons that report every container stopped, or fail every inspection.\<close>

definition state1 :: state where
  "state1 = state0\<lparr>files := [''/etc/conf.d/rell'' \<mapsto> ''PORT=43600\<newline>\<newline>'',
                             ''/run/nginx.pid'' \<mapsto> ''812\<newline>'']\<rparr>"

definition ci_stale :: ContainerInfo where
  "ci_stale = \<lparr>Running = False, IpAddress = []\<rparr>"

definition env_stale :: env where
  "env_stale = env0\<lparr>on_inspect := (\<lambda>h n. Inr ci_stale)\<rparr>"

definition env_broken :: env where
  "env_broken = env0\<lparr>on_inspect := (\<lambda>h n. Inl (Errno ''EOF''))\<rparr>"

text \<open>Counting the creations, starts and removals in a list of events; what the daemon said of a container before a run.\<close>

definition creates :: "event list \<Rightarrow> nat" where
  "creates evs = length (filter (\<lambda>ev. case call_of ev of Create cfg n \<Rightarrow> True | _ \<Rightarrow> False) evs)"

definition starts :: "event list \<Rightarrow> nat" where
  "starts evs = length (filter (\<lambda>ev. case call_of ev of Start x hc \<Rightarrow> True | _ \<Rightarrow> False) evs)"

definition removes :: "event list \<Rightarrow> nat" where
  "removes evs = length (filter (\<lambda>ev. case call_of ev of Remove x \<Rightarrow> True | _ \<Rightarrow> False) evs)"

definition wasRunning :: "env \<Rightarrow> string \<Rightarrow> state \<Rightarrow> bool" where
  "wasRunning E name s =
     (case on_inspect E (trace (snd (docker E s))) name of Inr ci \<Rightarrow> Running ci | Inl e \<Rightarrow> False)"

text \<open>A daemon that reports every container running.\<close>

definition ci_up :: ContainerInfo where
  "ci_up = \<lparr>Running = True, IpAddress = ''172.17.0.5''\<rparr>"

definition env_up :: env where
  "env_up = env0\<lparr>on_inspect := (\<lambda>h n. Inr ci_up)\<rparr>"

text \<open>A daemon that reports a container absent until a start has succeeded, and running from then on.\<close>

definition env_fresh :: env where
  "env_fresh = env0\<lparr>on_inspect :=
      (\<lambda>h n. if list_ex (\<lambda>ev. case ev of Ev (Start x hc) None \<Rightarrow> True | _ \<Rightarrow> False) h
             then Inr ci_up else Inl ErrNotFound)\<rparr>"

text \<open>The path a file call works on; the path and the data of the production configuration.\<close>

fun pathOf :: "call \<Rightarrow> string option" where
  "pathOf (ReadFile p) = Some p"
| "pathOf (CreateFile p) = Some p"
| "pathOf (WriteFile p bytes) = Some p"
| "pathOf (CloseFile p) = Some p"
| "pathOf (RemoveFile p) = Some p"
| "pathOf (MkdirAll p) = Some p"
| "pathOf c = None"

definition prodConfPath :: string where
  "prodConfPath = filepath_Join nginxConfDir prodNginxConfFile"

definition prodDataFor :: "Deploy \<Rightarrow> string \<Rightarrow> prodData" where
  "prodDataFor d tag =
     \<lparr>p_ServerSuffix = ServerSuffix d, p_BackendName = containerNameForTag tag,
      p_CertFile = CertFile d, p_KeyFile = KeyFile d\<rparr>"

text \<open>A listing with a release container whose name holds path elements, and a host that has the configuration of the release to keep.\<close>

definition c_dots :: Container where
  "c_dots = \<lparr>Id_c = ''z9'', Names = [''/rell-x/../rell-v42''], Image_c = ''daaku/rell:x''\<rparr>"

definition env_dots :: env where
  "env_dots = env0\<lparr>on_list := (\<lambda>h b. Inr [c_dots, c42])\<rparr>"

definition state_kept :: state where
  "state_kept = state0\<lparr>files := [''/etc/nginx/server/rell-v42.conf'' \<mapsto> ''upstream rell-v42'']\<rparr>"

text \<open>The data of the configuration of a release.\<close>

definition tagDataFor :: "Deploy \<Rightarrow> string \<Rightarrow> ContainerInfo \<Rightarrow> tagData" where
  "tagDataFor d tag ci =
     \<lparr>t_BackendName = containerNameForTag tag, t_ServerName = tag @ ''.'' @ ServerSuffix d,
      t_IpAddress = IpAddress ci, t_Port = rellPort, t_CertFile = CertFile d, t_KeyFile = KeyFile d\<rparr>"

text \<open>A disk on which every close fails, and one on which every write fails after 9 bytes.\<close>

definition env_closefail :: env where
  "env_closefail = env_up\<lparr>on_fault := (\<lambda>h c. case c of CloseFile p \<Rightarrow> Some (Errno ''EIO'') | _ \<Rightarrow> None)\<rparr>"

definition env_writefail :: env where
  "env_writefail = env_up\<lparr>on_fault := (\<lambda>h c. case c of WriteFile p b \<Rightarrow> Some (Errno ''ENOSPC'') | _ \<Rightarrow> None),
                          on_short := (\<lambda>h. 9)\<rparr>"

section \<open>Properties\<close>

subsection \<open>The cleanup sweep\<close>

lemma removalErrors_append: "removalErrors (xs @ ys) = removalErrors xs @ removalErrors ys"
  by (induction xs rule: removalErrors.induct) auto

lemma plain_call_eq: "plain_call E c s = (r, s') \<Longrightarrow> s' = s\<lparr>trace := trace s @ [Ev c r]\<rparr> \<and> r = on_fault E (trace s) c"
  by (auto simp: plain_call_def record_call_def Let_def)

lemma os_Remove_eq:
  "os_Remove E p s = (r, s') \<Longrightarrow>
     trace s' = trace s @ [Ev (RemoveFile p) r] \<and> deploy s' = deploy s \<and> clock s' = clock s \<and>
     (\<forall>q. q \<noteq> p \<longrightarrow> files s' q = files s q) \<and>
     (\<forall>q. files s q = None \<longrightarrow> files s' q = None) \<and>
     (r = None \<longrightarrow> files s' p = None) \<and>
     (on_fault E (trace s) (RemoveFile p) = None \<longrightarrow> files s' p = None)"
  by (auto simp: os_Remove_def record_call_def split: option.splits)

lemma stopTimeout_secs: "stopTimeout div 1000000000 = 30"
  by (simp add: stopTimeout_def)

lemma killLoop_step:
  assumes "HasPrefix (Image_c c) (rellImage @ '':'')" "tagFromNames (Names c) = Val t" "t \<noteq> tag"
  shows "\<exists>r1 r2 r3 s3.
           killLoop E tag (c # cs) errs s =
             killLoop E tag cs (errs @ (case r3 of None \<Rightarrow> [] | Some e \<Rightarrow> [e])) s3 \<and>
           trace s3 = trace s @ [Ev (RemoveFile (containerNginxConfPath (containerNameForTag t))) r1,
                                 Ev (Stop (Id_c c) 30) r2, Ev (Remove (Id_c c)) r3] \<and>
           deploy s3 = deploy s \<and> clock s3 = clock s \<and>
           (\<forall>q. q \<noteq> containerNginxConfPath (containerNameForTag t) \<longrightarrow> files s3 q = files s q) \<and>
           (\<forall>q. files s q = None \<longrightarrow> files s3 q = None) \<and>
           (on_fault E (trace s) (RemoveFile (containerNginxConfPath (containerNameForTag t))) = None \<longrightarrow>
              files s3 (containerNginxConfPath (containerNameForTag t)) = None)"
proof -
  obtain r1 s1 where a: "os_Remove E (containerNginxConfPath (containerNameForTag t)) s = (r1, s1)"
    by (cases "os_Remove E (containerNginxConfPath (containerNameForTag t)) s")
  obtain r2 s2 where b: "StopContainer E (Id_c c) 30 s1 = (r2, s2)"
    by (cases "StopContainer E (Id_c c) 30 s1")
  obtain r3 s3 where c: "RemoveContainer E (Id_c c) s2 = (r3, s3)"
    by (cases "RemoveContainer E (Id_c c) s2")
  note A = os_Remove_eq[OF a]
  note B = plain_call_eq[OF b[unfolded StopContainer_def]]
  note C = plain_call_eq[OF c[unfolded RemoveContainer_def]]
  have f1: "killLoop E tag (c # cs) errs s =
          killLoop E tag cs (errs @ (case r3 of None \<Rightarrow> [] | Some e \<Rightarrow> [e])) s3"
    using assms a b c by (simp add: stopTimeout_secs split: option.splits)
  have f2: "trace s3 = trace s @ [Ev (RemoveFile (containerNginxConfPath (containerNameForTag t))) r1,
                                 Ev (Stop (Id_c c) 30) r2, Ev (Remove (Id_c c)) r3]"
    using A B C by simp
  have f3: "deploy s3 = deploy s" and f4: "clock s3 = clock s"
    using A B C by simp_all
  have f5: "\<forall>q. q \<noteq> containerNginxConfPath (containerNameForTag t) \<longrightarrow> files s3 q = files s q"
    using A B C by simp
  have f6: "\<forall>q. files s q = None \<longrightarrow> files s3 q = None"
    using A B C by simp
  have f7: "on_fault E (trace s) (RemoveFile (containerNginxConfPath (containerNameForTag t))) = None \<longrightarrow>
              files s3 (containerNginxConfPath (containerNameForTag t)) = None"
    using A B C by simp
  show ?thesis
    apply (rule exI[of _ r1], rule exI[of _ r2], rule exI[of _ r3], rule exI[of _ s3])
    using f1 f2 f3 f4 f5 f6 f7 by (intro conjI)
qed

lemma killLoop_skip:
  assumes "\<not> HasPrefix (Image_c c) (rellImage @ '':'') \<or> tagFromNames (Names c) = Val tag"
  shows "killLoop E tag (c # cs) errs s = killLoop E tag cs errs s"
  using assms by auto

lemma killLoop_panic:
  assumes "HasPrefix (Image_c c) (rellImage @ '':'')" "tagFromNames (Names c) = Panic"
  shows "killLoop E tag (c # cs) errs s = (Panic, s)"
  using assms by auto

lemma sweepTarget_cases:
  "sweepTarget tag c \<longleftrightarrow>
     HasPrefix (Image_c c) (rellImage @ '':'') \<and> (\<exists>t. tagFromNames (Names c) = Val t \<and> t \<noteq> tag)"
  by (auto simp: sweepTarget_def split: outcome.splits)

lemma killLoop_ok:
  assumes "\<forall>c\<in>set cs. HasPrefix (Image_c c) (rellImage @ '':'') \<longrightarrow> tagFromNames (Names c) \<noteq> Panic"
  shows "\<exists>new s'. killLoop E tag cs errs s = (Val (errs @ removalErrors new), s') \<and>
           trace s' = trace s @ new \<and>
           map call_of new = concat (map sweepCalls (filter (sweepTarget tag) cs)) \<and>
           deploy s' = deploy s \<and> clock s' = clock s"
  using assms
proof (induction cs arbitrary: errs s)
  case Nil
  then show ?case by simp
next
  case (Cons c cs)
  have rest: "\<forall>c\<in>set cs. HasPrefix (Image_c c) (rellImage @ '':'') \<longrightarrow> tagFromNames (Names c) \<noteq> Panic"
    using Cons.prems by simp
  show ?case
  proof (cases "sweepTarget tag c")
    case False
    with Cons.prems have skip: "\<not> HasPrefix (Image_c c) (rellImage @ '':'') \<or> tagFromNames (Names c) = Val tag"
      by (cases "tagFromNames (Names c)") (auto simp: sweepTarget_def)
    show ?thesis
      using Cons.IH[OF rest, of errs s] False by (simp only: killLoop_skip[OF skip] filter.simps if_False)
  next
    case True
    then obtain t where t: "HasPrefix (Image_c c) (rellImage @ '':'')" "tagFromNames (Names c) = Val t" "t \<noteq> tag"
      by (auto simp: sweepTarget_cases)
    from killLoop_step[OF t, of E cs errs s] obtain r1 r2 r3 s3 where
      step: "killLoop E tag (c # cs) errs s =
               killLoop E tag cs (errs @ (case r3 of None \<Rightarrow> [] | Some e \<Rightarrow> [e])) s3"
      and tr: "trace s3 = trace s @ [Ev (RemoveFile (containerNginxConfPath (containerNameForTag t))) r1,
                                 Ev (Stop (Id_c c) 30) r2, Ev (Remove (Id_c c)) r3]"
      and fr: "deploy s3 = deploy s" "clock s3 = clock s"
      by blast
    from Cons.IH[OF rest, of "errs @ (case r3 of None \<Rightarrow> [] | Some e \<Rightarrow> [e])" s3]
    obtain new s' where
      ih: "killLoop E tag cs (errs @ (case r3 of None \<Rightarrow> [] | Some e \<Rightarrow> [e])) s3 =
             (Val ((errs @ (case r3 of None \<Rightarrow> [] | Some e \<Rightarrow> [e])) @ removalErrors new), s')"
        "trace s' = trace s3 @ new"
        "map call_of new = concat (map sweepCalls (filter (sweepTarget tag) cs))"
        "deploy s' = deploy s3" "clock s' = clock s3"
      by blast
    let ?three = "[Ev (RemoveFile (containerNginxConfPath (containerNameForTag t))) r1,
                   Ev (Stop (Id_c c) 30) r2, Ev (Remove (Id_c c)) r3]"
    have e: "removalErrors (?three @ new) = (case r3 of None \<Rightarrow> [] | Some e \<Rightarrow> [e]) @ removalErrors new"
      by (cases r3) simp_all
    have "killLoop E tag (c # cs) errs s = (Val (errs @ removalErrors (?three @ new)), s')"
      using step ih(1) e by simp
    moreover have "trace s' = trace s @ (?three @ new)"
      using tr ih(2) by simp
    moreover have "map call_of (?three @ new) = concat (map sweepCalls (filter (sweepTarget tag) (c # cs)))"
      using True ih(3) t(2) by (simp add: sweepCalls_def tagOf_def)
    moreover have "deploy s' = deploy s" "clock s' = clock s" using fr ih by simp_all
    ultimately show ?thesis by blast
  qed
qed

text \<open>
  \<^verbatim>\<open>Clean\<close> leaves the path of a configuration file as it is written when the tag
  holds no separator; the paths of two such tags differ.
\<close>

lemma splitSlash_noslash: "CHR ''/'' \<notin> set w \<Longrightarrow> splitSlash w = [w]"
  by (induction w) auto

lemma filepath_Join_plain:
  assumes "CHR ''/'' \<notin> set f" "f \<noteq> []" "f \<noteq> ''.''" "f \<noteq> ''..''"
  shows "filepath_Join nginxConfDir f = ''/etc/nginx/server/'' @ f"
  using assms
  by (simp add: filepath_Join_def nginxConfDir_def Clean_def splitSlash_noslash)

lemma confPath_plain:
  assumes "CHR ''/'' \<notin> set t"
  shows "containerNginxConfPath (containerNameForTag t) = ''/etc/nginx/server/rell-'' @ t @ ''.conf''"
proof -
  have "CHR ''/'' \<notin> set (''rell-'' @ t @ ''.conf'')" using assms by simp
  from filepath_Join_plain[OF this] show ?thesis
    by (simp add: containerNginxConfPath_def containerNameForTag_def rellContainerNamePrefix_def)
qed

lemma confPath_literal:
  "CHR ''/'' \<notin> set t \<Longrightarrow>
   containerNginxConfPath (CHR ''r'' # CHR ''e'' # CHR ''l'' # CHR ''l'' # CHR ''-'' # t) =
     ''/etc/nginx/server/rell-'' @ t @ ''.conf''"
  using confPath_plain[of t] by (simp add: containerNameForTag_def rellContainerNamePrefix_def)

lemma confPath_inj:
  "CHR ''/'' \<notin> set t \<Longrightarrow> CHR ''/'' \<notin> set u \<Longrightarrow>
   containerNginxConfPath (containerNameForTag t) = containerNginxConfPath (containerNameForTag u) \<longleftrightarrow> t = u"
  by (simp add: confPath_plain)

lemma killLoop_frame:
  "\<exists>new. trace (snd (killLoop E tag cs errs s)) = trace s @ new \<and>
         set (map call_of new) \<subseteq> (\<Union>c\<in>{c \<in> set cs. sweepTarget tag c}. set (sweepCalls c)) \<and>
         (\<forall>p. (\<forall>c\<in>set cs. sweepTarget tag c \<longrightarrow> p \<noteq> confPathOf c) \<longrightarrow>
              files (snd (killLoop E tag cs errs s)) p = files s p) \<and>
         (\<forall>p. files s p = None \<longrightarrow> files (snd (killLoop E tag cs errs s)) p = None)"
proof (induction cs arbitrary: errs s)
  case Nil
  then show ?case by simp
next
  case (Cons c cs)
  show ?case
  proof (cases "HasPrefix (Image_c c) (rellImage @ '':'')")
    case False
    then have "killLoop E tag (c # cs) errs s = killLoop E tag cs errs s" by simp
    with Cons.IH[of errs s] show ?thesis by (simp only:) fastforce
  next
    case img: True
    show ?thesis
    proof (cases "tagFromNames (Names c)")
      case Panic
      then have "killLoop E tag (c # cs) errs s = (Panic, s)" using img by simp
      then show ?thesis by simp
    next
      case (Val t)
      show ?thesis
      proof (cases "t = tag")
        case True
        then have "killLoop E tag (c # cs) errs s = killLoop E tag cs errs s" using img Val by simp
        with Cons.IH[of errs s] show ?thesis by (simp only:) fastforce
      next
        case False
        have tgt: "sweepTarget tag c" using img Val False by (simp add: sweepTarget_def)
        from killLoop_step[OF img Val False, of E cs errs s] obtain r1 r2 r3 s3 where
          step: "killLoop E tag (c # cs) errs s =
                   killLoop E tag cs (errs @ (case r3 of None \<Rightarrow> [] | Some e \<Rightarrow> [e])) s3"
          and tr: "trace s3 = trace s @ [Ev (RemoveFile (containerNginxConfPath (containerNameForTag t))) r1,
                                 Ev (Stop (Id_c c) 30) r2, Ev (Remove (Id_c c)) r3]"
          and fl: "\<forall>q. q \<noteq> containerNginxConfPath (containerNameForTag t) \<longrightarrow> files s3 q = files s q"
          and fn: "\<forall>q. files s q = None \<longrightarrow> files s3 q = None"
          by blast
        let ?errs = "errs @ (case r3 of None \<Rightarrow> [] | Some e \<Rightarrow> [e])"
        let ?three = "[Ev (RemoveFile (containerNginxConfPath (containerNameForTag t))) r1,
                       Ev (Stop (Id_c c) 30) r2, Ev (Remove (Id_c c)) r3]"
        from Cons.IH[of ?errs s3] obtain new where
          ih: "trace (snd (killLoop E tag cs ?errs s3)) = trace s3 @ new"
              "set (map call_of new) \<subseteq> (\<Union>c\<in>{c \<in> set cs. sweepTarget tag c}. set (sweepCalls c))"
              "\<forall>p. (\<forall>c\<in>set cs. sweepTarget tag c \<longrightarrow> p \<noteq> confPathOf c) \<longrightarrow>
                    files (snd (killLoop E tag cs ?errs s3)) p = files s3 p"
              "\<forall>p. files s3 p = None \<longrightarrow> files (snd (killLoop E tag cs ?errs s3)) p = None"
          by blast
        have cp: "confPathOf c = containerNginxConfPath (containerNameForTag t)"
          using Val by (simp add: confPathOf_def tagOf_def)
        have three: "set (map call_of ?three) \<subseteq> set (sweepCalls c)"
          using Val by (simp add: sweepCalls_def tagOf_def)
        have "trace (snd (killLoop E tag (c # cs) errs s)) = trace s @ (?three @ new)"
          using step tr ih(1) by simp
        moreover have "set (map call_of (?three @ new)) \<subseteq>
                         (\<Union>c\<in>{d \<in> set (c # cs). sweepTarget tag d}. set (sweepCalls c))"
          using three ih(2) tgt by auto
        moreover have "\<forall>p. (\<forall>d\<in>set (c # cs). sweepTarget tag d \<longrightarrow> p \<noteq> confPathOf d) \<longrightarrow>
                            files (snd (killLoop E tag (c # cs) errs s)) p = files s p"
          using step ih(3) fl tgt cp by simp
        moreover have "\<forall>p. files s p = None \<longrightarrow> files (snd (killLoop E tag (c # cs) errs s)) p = None"
          using step ih(4) fn by simp
        ultimately show ?thesis by blast
      qed
    qed
  qed
qed

lemma docker_frame:
  "\<exists>new. trace (snd (docker E s)) = trace s @ new \<and> (\<forall>ev\<in>set new. \<exists>u. call_of ev = Dial u) \<and>
         files (snd (docker E s)) = files s \<and> clock (snd (docker E s)) = clock s"
  by (auto simp: docker_def Let_def record_call_def split: sum.splits)

lemma ListContainers_eq:
  "ListContainers E b s = (on_list E (trace s) b, s\<lparr>trace := trace s @ [Ev (ListAll b) (err_of (on_list E (trace s) b))]\<rparr>)"
  by (simp add: ListContainers_def Let_def record_call_def)

lemma killExcept_unfold:
  assumes "snd (fst (docker E s)) = None" "on_list E (trace (snd (docker E s))) True = Inr cs"
  shows "killExcept E tag s =
           (case killLoop E tag cs [] ((snd (docker E s))\<lparr>trace := trace (snd (docker E s)) @ [Ev (ListAll True) None]\<rparr>) of
              (Panic, s3) \<Rightarrow> (Panic, s3)
            | (Val errs, s3) \<Rightarrow>
                if length errs = 0 then (Val None, s3)
                else if length errs = 1 then (Val (Some (Wrap (errs ! 0))), s3)
                else (Val (Some (Wrap (multiError errs))), s3))"
proof -
  obtain c r s1 where d: "docker E s = ((c, r), s1)" by (metis surj_pair)
  with assms have r: "r = None" and l: "on_list E (trace s1) True = Inr cs" by simp_all
  show ?thesis
    unfolding killExcept_def d r by (simp add: ListContainers_eq l err_of_def)
qed

lemma killExcept_snd:
  "snd (killExcept E tag s) = snd (docker E s) \<or>
   (\<exists>e. on_list E (trace (snd (docker E s))) True = Inl e \<and>
        snd (killExcept E tag s) = (snd (docker E s))\<lparr>trace := trace (snd (docker E s)) @ [Ev (ListAll True) (Some e)]\<rparr>) \<or>
   (\<exists>cs. on_list E (trace (snd (docker E s))) True = Inr cs \<and>
        snd (killExcept E tag s) =
          snd (killLoop E tag cs [] ((snd (docker E s))\<lparr>trace := trace (snd (docker E s)) @ [Ev (ListAll True) None]\<rparr>)))"
proof -
  obtain c r s1 where d: "docker E s = ((c, r), s1)" by (metis surj_pair)
  show ?thesis
  proof (cases r)
    case (Some e)
    then show ?thesis unfolding killExcept_def d by simp
  next
    case None
    show ?thesis
    proof (cases "on_list E (trace s1) True")
      case (Inl e)
      then show ?thesis unfolding killExcept_def d None
        by (simp add: ListContainers_eq err_of_def)
    next
      case (Inr cs)
      have "snd (fst (docker E s)) = None" using d None by simp
      moreover have "on_list E (trace (snd (docker E s))) True = Inr cs" using d Inr by simp
      ultimately show ?thesis
        by (auto simp: killExcept_unfold split: prod.splits outcome.splits)
    qed
  qed
qed

text \<open>
  Claim C1, as amended. The tags that the names of the listed release containers
  give hold no path separator (a container name of Docker has none after its
  leading slash). Then, whatever else the daemon lists and whatever fails,
  \<^verbatim>\<open>killExcept tag\<close> issues no stop and no removal for a listed container of the
  release image whose names give \<open>tag\<close>, never calls \<^verbatim>\<open>os.Remove\<close> on the
  configuration file of \<open>tag\<close>, and leaves that file as it was. Container ids are
  distinct, as Docker's are. The statement covers the runs that panic and the
  runs that stop at an error.
\<close>

theorem killExcept_spares_current:
  assumes listed: "on_list E (trace (snd (docker E s))) True = Inr cs"
    and c: "c \<in> set cs" "HasPrefix (Image_c c) (rellImage @ '':'')" "tagFromNames (Names c) = Val tag"
    and ids: "distinct (map Id_c cs)"
    and tags: "\<forall>d\<in>set cs. HasPrefix (Image_c d) (rellImage @ '':'') \<longrightarrow>
                 (\<forall>t. tagFromNames (Names d) = Val t \<longrightarrow> CHR ''/'' \<notin> set t)"
  shows "\<exists>new. trace (snd (killExcept E tag s)) = trace s @ new \<and>
           (\<forall>ev\<in>set new. (\<forall>n. call_of ev \<noteq> Stop (Id_c c) n) \<and> call_of ev \<noteq> Remove (Id_c c) \<and>
               call_of ev \<noteq> RemoveFile (containerNginxConfPath (containerNameForTag tag))) \<and>
           files (snd (killExcept E tag s)) (containerNginxConfPath (containerNameForTag tag)) =
             files s (containerNginxConfPath (containerNameForTag tag))"
proof -
  let ?p = "containerNginxConfPath (containerNameForTag tag)"
  let ?s1 = "snd (docker E s)"
  let ?s2 = "?s1\<lparr>trace := trace ?s1 @ [Ev (ListAll True) None]\<rparr>"
  from docker_frame[of E s] obtain dial where
    dial: "trace ?s1 = trace s @ dial" "\<forall>ev\<in>set dial. \<exists>u. call_of ev = Dial u"
      "files ?s1 = files s"
    by blast
  have notc: "\<not> sweepTarget tag c" using c by (simp add: sweepTarget_def)
  have other: "d \<in> set cs \<Longrightarrow> sweepTarget tag d \<Longrightarrow> Id_c d \<noteq> Id_c c \<and> confPathOf d \<noteq> ?p" for d
  proof -
    assume d: "d \<in> set cs" "sweepTarget tag d"
    then have "d \<noteq> c" using notc by auto
    then have "Id_c d \<noteq> Id_c c" using ids d(1) c(1) by (meson distinct_map inj_onD)
    moreover have "confPathOf d \<noteq> ?p"
    proof -
      from d(2) obtain t where t: "HasPrefix (Image_c d) (rellImage @ '':'')"
        "tagFromNames (Names d) = Val t" "t \<noteq> tag"
        by (auto simp: sweepTarget_cases)
      have "CHR ''/'' \<notin> set t" using tags d(1) t(1,2) by blast
      moreover have "CHR ''/'' \<notin> set tag" using tags c by blast
      ultimately have "containerNginxConfPath (containerNameForTag t) \<noteq> ?p"
        using t(3) by (simp add: confPath_inj)
      then show ?thesis using t(2) by (simp add: confPathOf_def tagOf_def)
    qed
    ultimately show ?thesis by simp
  qed
  from killExcept_snd[of E tag s] consider
      (a) "snd (killExcept E tag s) = ?s1"
    | (b) e where "snd (killExcept E tag s) = ?s1\<lparr>trace := trace ?s1 @ [Ev (ListAll True) (Some e)]\<rparr>"
    | (c) "snd (killExcept E tag s) = snd (killLoop E tag cs [] ?s2)"
    using listed by auto
  then show ?thesis
  proof cases
    case a
    then show ?thesis using dial by force
  next
    case b
    then show ?thesis using dial by force
  next
    case c
    from killLoop_frame[of E tag cs "[]" ?s2] obtain new where
      new: "trace (snd (killLoop E tag cs [] ?s2)) = trace ?s2 @ new"
        "set (map call_of new) \<subseteq> (\<Union>c\<in>{c \<in> set cs. sweepTarget tag c}. set (sweepCalls c))"
        "\<forall>p. (\<forall>c\<in>set cs. sweepTarget tag c \<longrightarrow> p \<noteq> confPathOf c) \<longrightarrow>
              files (snd (killLoop E tag cs [] ?s2)) p = files ?s2 p"
      by blast
    have ok: "(\<forall>n. call_of ev \<noteq> Stop (Id_c c) n) \<and> call_of ev \<noteq> Remove (Id_c c) \<and>
              call_of ev \<noteq> RemoveFile ?p" if "ev \<in> set new" for ev
    proof -
      from that new(2) obtain d where d: "d \<in> set cs" "sweepTarget tag d" "call_of ev \<in> set (sweepCalls d)"
        by auto
      from other[OF d(1,2)] d(3) show ?thesis
        by (auto simp: sweepCalls_def confPathOf_def)
    qed
    have "trace (snd (killExcept E tag s)) = trace s @ (dial @ Ev (ListAll True) None # new)"
      using c new(1) dial(1) by simp
    moreover have "\<forall>ev\<in>set (dial @ Ev (ListAll True) None # new).
        (\<forall>n. call_of ev \<noteq> Stop (Id_c c) n) \<and> call_of ev \<noteq> Remove (Id_c c) \<and> call_of ev \<noteq> RemoveFile ?p"
      using ok dial(2) by auto
    moreover have "\<forall>d\<in>set cs. sweepTarget tag d \<longrightarrow> ?p \<noteq> confPathOf d"
      using other by metis
    then have "files (snd (killExcept E tag s)) ?p = files s ?p"
      using c new(3) dial(3) by simp
    ultimately show ?thesis by blast
  qed
qed

lemmas prim_defs = docker_def ListContainers_def InspectContainer_def RemoveContainer_def
  CreateContainer_def StartContainer_def StopContainer_def plain_call_def record_call_def
  os_Create_def os_Remove_def os_MkdirAll_def file_Write_def file_Close_def ioutil_ReadFile_def
  os_FindProcess_def process_Signal_def http_Head_def time_Sleep_def err_of_def appendTo_def
  template_Execute_def

lemmas const_defs = rellImage_def rellContainerNamePrefix_def HasPrefix_def containerNameForTag_def
  confPath_literal stopTimeout_def

theorem killExcept_spares_current_witness:
  "on_list env_sweep (trace (snd (docker env_sweep state0))) True = Inr [c40, c41, c42] \<and>
   c42 \<in> set [c40, c41, c42] \<and> tagFromNames (Names c42) = Val ''v42'' \<and>
   (\<exists>new. trace (snd (killExcept env_sweep ''v42'' state0)) = trace state0 @ new \<and>
           (\<forall>ev\<in>set new. (\<forall>n. call_of ev \<noteq> Stop ''a42'' n) \<and> call_of ev \<noteq> Remove ''a42'' \<and>
               call_of ev \<noteq> RemoveFile ''/etc/nginx/server/rell-v42.conf'') \<and>
           files (snd (killExcept env_sweep ''v42'' state0)) ''/etc/nginx/server/rell-v42.conf'' =
             files state0 ''/etc/nginx/server/rell-v42.conf'')"
proof -
  have h1: "on_list env_sweep (trace (snd (docker env_sweep state0))) True = Inr [c40, c41, c42]"
    by (simp add: env_sweep_def)
  have h2: "c42 \<in> set [c40, c41, c42]" by simp
  have h3: "HasPrefix (Image_c c42) (rellImage @ '':'')" by (simp add: c42_def const_defs)
  have h4: "tagFromNames (Names c42) = Val ''v42''" by (simp add: c42_def const_defs)
  have h5: "distinct (map Id_c [c40, c41, c42])" by (simp add: c40_def c41_def c42_def)
  have h6: "\<forall>d\<in>set [c40, c41, c42]. HasPrefix (Image_c d) (rellImage @ '':'') \<longrightarrow>
              (\<forall>t. tagFromNames (Names d) = Val t \<longrightarrow> CHR ''/'' \<notin> set t)"
    by (auto simp: c40_def c41_def c42_def const_defs)
  from killExcept_spares_current[OF h1 h2 h3 h4 h5 h6] h1 h2 h4 show ?thesis
    by (simp add: c42_def const_defs)
qed

theorem killExcept_dotted_name_counterexample:
  "on_list env_dots (trace (snd (docker env_dots state_kept))) True = Inr [c_dots, c42] \<and>
   c42 \<in> set [c_dots, c42] \<and> HasPrefix (Image_c c42) (rellImage @ '':'') \<and>
   tagFromNames (Names c42) = Val ''v42'' \<and> distinct (map Id_c [c_dots, c42]) \<and>
   containerNginxConfPath (containerNameForTag ''v42'') = ''/etc/nginx/server/rell-v42.conf'' \<and>
   tagFromNames (Names c_dots) = Val ''x/../rell-v42'' \<and>
   map call_of (trace (snd (killExcept env_dots ''v42'' state_kept))) =
     [Dial ''unix:///var/run/docker.sock'', ListAll True,
      RemoveFile ''/etc/nginx/server/rell-v42.conf'', Stop ''z9'' 30, Remove ''z9''] \<and>
   files state_kept ''/etc/nginx/server/rell-v42.conf'' = Some ''upstream rell-v42'' \<and>
   files (snd (killExcept env_dots ''v42'' state_kept)) ''/etc/nginx/server/rell-v42.conf'' = None"
proof -
  have p: "containerNginxConfPath ''rell-x/../rell-v42'' = ''/etc/nginx/server/rell-v42.conf''"
    by (simp add: containerNginxConfPath_def filepath_Join_def nginxConfDir_def Clean_def)
  have 1: "on_list env_dots (trace (snd (docker env_dots state_kept))) True = Inr [c_dots, c42]"
    by (simp add: env_dots_def)
  have 2: "HasPrefix (Image_c c42) (rellImage @ '':'')" by (simp add: c42_def const_defs)
  have 3: "tagFromNames (Names c42) = Val ''v42''" by (simp add: c42_def const_defs)
  have 4: "distinct (map Id_c [c_dots, c42])" by (simp add: c_dots_def c42_def)
  have 5: "containerNginxConfPath (containerNameForTag ''v42'') = ''/etc/nginx/server/rell-v42.conf''"
    by (simp add: const_defs)
  have 6: "tagFromNames (Names c_dots) = Val ''x/../rell-v42''" by (simp add: c_dots_def const_defs)
  have 7: "snd (killExcept env_dots ''v42'' state_kept) =
     state_kept\<lparr>deploy := deploy0\<lparr>client := Some (DockerClient ''unix:///var/run/docker.sock''),
                                         clientErr := None, clientOnce := True\<rparr>,
                 trace := [Ev (Dial ''unix:///var/run/docker.sock'') None, Ev (ListAll True) None,
                           Ev (RemoveFile ''/etc/nginx/server/rell-v42.conf'') None,
                           Ev (Stop ''z9'' 30) None, Ev (Remove ''z9'') None],
                 files := Map.empty\<rparr>"
    by (simp add: killExcept_def prim_defs Let_def const_defs p env_dots_def env0_def state_kept_def
          state0_def deploy0_def c_dots_def c42_def)
  have 8: "map call_of (trace (snd (killExcept env_dots ''v42'' state_kept))) =
     [Dial ''unix:///var/run/docker.sock'', ListAll True,
      RemoveFile ''/etc/nginx/server/rell-v42.conf'', Stop ''z9'' 30, Remove ''z9'']"
    unfolding 7 by simp
  have 9: "files state_kept ''/etc/nginx/server/rell-v42.conf'' = Some ''upstream rell-v42''"
    by (simp add: state_kept_def)
  have 10: "files (snd (killExcept env_dots ''v42'' state_kept)) ''/etc/nginx/server/rell-v42.conf'' = None"
    unfolding 7 by simp
  show ?thesis using 1 2 3 4 5 6 8 9 10 by (intro conjI) simp_all
qed

lemma container_cases:
  obtains (skip) "\<not> HasPrefix (Image_c c) (rellImage @ '':'') \<or> tagFromNames (Names c) = Val tag"
  | (panic) "HasPrefix (Image_c c) (rellImage @ '':'')" "tagFromNames (Names c) = Panic"
  | (target) t where "HasPrefix (Image_c c) (rellImage @ '':'')" "tagFromNames (Names c) = Val t" "t \<noteq> tag"
  by (cases "tagFromNames (Names c)") auto

lemma killLoop_target:
  assumes "HasPrefix (Image_c c) (rellImage @ '':'')" "tagFromNames (Names c) = Val t" "t \<noteq> tag"
    and "os_Remove E (containerNginxConfPath (containerNameForTag t)) s = (r1, s1)"
    and "StopContainer E (Id_c c) 30 s1 = (r2, s2)"
    and "RemoveContainer E (Id_c c) s2 = (r3, s3)"
  shows "killLoop E tag (c # cs) errs s =
           killLoop E tag cs (errs @ (case r3 of None \<Rightarrow> [] | Some e \<Rightarrow> [e])) s3"
  using assms by (simp add: stopTimeout_secs split: option.splits)

lemma killLoop_append:
  "killLoop E tag (xs @ ys) errs s =
     (case killLoop E tag xs errs s of
        (Panic, s1) \<Rightarrow> (Panic, s1)
      | (Val e1, s1) \<Rightarrow> killLoop E tag ys e1 s1)"
proof (induction xs arbitrary: errs s)
  case Nil
  then show ?case by simp
next
  case (Cons c xs)
  show ?case
  proof (cases c tag rule: container_cases)
    case skip
    show ?thesis
      unfolding append_Cons killLoop_skip[OF skip] by (rule Cons.IH)
  next
    case panic
    show ?thesis
      unfolding append_Cons killLoop_panic[OF panic] by simp
  next
    case (target t)
    obtain r1 s1 where a: "os_Remove E (containerNginxConfPath (containerNameForTag t)) s = (r1, s1)"
      by (cases "os_Remove E (containerNginxConfPath (containerNameForTag t)) s")
    obtain r2 s2 where b: "StopContainer E (Id_c c) 30 s1 = (r2, s2)"
      by (cases "StopContainer E (Id_c c) 30 s1")
    obtain r3 s3 where c: "RemoveContainer E (Id_c c) s2 = (r3, s3)"
      by (cases "RemoveContainer E (Id_c c) s2")
    show ?thesis
      unfolding append_Cons killLoop_target[OF target a b c] by (rule Cons.IH)
  qed
qed

lemma killLoop_panics:
  "c \<in> set cs \<Longrightarrow> HasPrefix (Image_c c) (rellImage @ '':'') \<Longrightarrow> tagFromNames (Names c) = Panic \<Longrightarrow>
   fst (killLoop E tag cs errs s) = Panic"
proof (induction cs arbitrary: errs s)
  case Nil
  then show ?case by simp
next
  case (Cons d cs)
  show ?case
  proof (cases "d = c")
    case True
    then show ?thesis using killLoop_panic[OF Cons.prems(2,3)] by simp
  next
    case False
    then have IH: "fst (killLoop E tag cs errs' s') = Panic" for errs' s'
      using Cons by simp
    show ?thesis
    proof (cases d tag rule: container_cases)
      case skip
      show ?thesis unfolding killLoop_skip[OF skip] by (rule IH)
    next
      case panic
      show ?thesis unfolding killLoop_panic[OF panic] by simp
    next
      case (target t)
      from killLoop_step[OF target, of E cs errs s] obtain r3 s3 where
        "killLoop E tag (d # cs) errs s =
           killLoop E tag cs (errs @ (case r3 of None \<Rightarrow> [] | Some e \<Rightarrow> [e])) s3"
        by blast
      then show ?thesis by (simp only: IH)
    qed
  qed
qed

lemma no_prefix_Nil: "\<not> HasPrefix [] rellContainerNamePrefix"
  by (simp add: HasPrefix_def rellContainerNamePrefix_def)

lemma tagFromNames_Panic_iff:
  "tagFromNames names = Panic \<longleftrightarrow>
     [] \<in> set (takeWhile (\<lambda>n. \<not> HasPrefix (drop 1 n) rellContainerNamePrefix) names)"
  by (induction names) (auto simp: no_prefix_Nil)

lemma tagFromNames_unnamed:
  "\<forall>n\<in>set names. n \<noteq> [] \<and> \<not> HasPrefix (drop 1 n) rellContainerNamePrefix \<Longrightarrow> tagFromNames names = Val []"
  by (induction names) auto


lemma killExcept_loop:
  assumes "snd (fst (docker E s)) = None" "on_list E (trace (snd (docker E s))) True = Inr cs"
    and "killLoop E tag cs [] ((snd (docker E s))\<lparr>trace := trace (snd (docker E s)) @ [Ev (ListAll True) None]\<rparr>) = (r, s')"
  shows "snd (killExcept E tag s) = s'"
    and "fst (killExcept E tag s) =
           (case r of Panic \<Rightarrow> Panic
            | Val errs \<Rightarrow> Val (if length errs = 0 then None
                               else if length errs = 1 then Some (Wrap (errs ! 0))
                               else Some (Wrap (multiError errs))))"
  using assms(3) by (simp_all add: killExcept_unfold[OF assms(1,2)] split: outcome.splits)

text \<open>
  Claim C3. When the client is there, the listing succeeds and no name makes
  \<^verbatim>\<open>tagFromNames\<close> panic, \<^verbatim>\<open>killExcept\<close> issues for each of the N swept containers, in
  the order of the listing, the deletion of its configuration file, the stop and
  the removal, whatever any of these calls returns. With K the number of
  removals that failed, it returns nil exactly when K = 0, the wrapped error of
  the one failed removal when K = 1, and the wrapped \<^verbatim>\<open>multiError\<close> of all K errors,
  in order, when K > 1. The errors of \<^verbatim>\<open>os.Remove\<close> and of the stops are in the
  trace and nowhere in the result.
\<close>

theorem killExcept_collects_removal_errors:
  assumes "snd (fst (docker E s)) = None"
    and "on_list E (trace (snd (docker E s))) True = Inr cs"
    and "\<forall>c\<in>set cs. HasPrefix (Image_c c) (rellImage @ '':'') \<longrightarrow> tagFromNames (Names c) \<noteq> Panic"
  shows "\<exists>new res. fst (killExcept E tag s) = Val res \<and>
           trace (snd (killExcept E tag s)) = trace (snd (docker E s)) @ Ev (ListAll True) None # new \<and>
           map call_of new = concat (map sweepCalls (filter (sweepTarget tag) cs)) \<and>
           (res = None \<longleftrightarrow> removalErrors new = []) \<and>
           (\<forall>e. removalErrors new = [e] \<longrightarrow> res = Some (Wrap e)) \<and>
           (1 < length (removalErrors new) \<longrightarrow> res = Some (Wrapped (multiError (removalErrors new))))"
proof -
  let ?s2 = "(snd (docker E s))\<lparr>trace := trace (snd (docker E s)) @ [Ev (ListAll True) None]\<rparr>"
  from killLoop_ok[OF assms(3), of E tag "[]" ?s2] obtain new s' where
    loop: "killLoop E tag cs [] ?s2 = (Val (removalErrors new), s')"
    and tr: "trace s' = trace ?s2 @ new"
    and calls: "map call_of new = concat (map sweepCalls (filter (sweepTarget tag) cs))"
    by auto
  let ?errs = "removalErrors new"
  let ?res = "if length ?errs = 0 then None
              else if length ?errs = 1 then Some (Wrap (?errs ! 0))
              else Some (Wrap (multiError ?errs))"
  note k = killExcept_loop[OF assms(1,2) loop]
  have 1: "fst (killExcept E tag s) = Val ?res" using k(2) by simp
  have 2: "trace (snd (killExcept E tag s)) = trace (snd (docker E s)) @ Ev (ListAll True) None # new"
    using k(1) tr by simp
  have 3: "?res = None \<longleftrightarrow> ?errs = []" by simp
  have 4: "\<forall>e. ?errs = [e] \<longrightarrow> ?res = Some (Wrap e)" by simp
  have 5: "1 < length ?errs \<longrightarrow> ?res = Some (Wrapped (multiError ?errs))" by simp
  show ?thesis
    apply (rule exI[of _ new], rule exI[of _ ?res])
    using 1 2 calls 3 4 5 by (intro conjI)
qed

theorem killExcept_collects_removal_errors_witness:
  "snd (fst (docker env_sweep state0)) = None \<and>
   on_list env_sweep (trace (snd (docker env_sweep state0))) True = Inr [c40, c41, c42] \<and>
   filter (sweepTarget ''v42'') [c40, c41, c42] = [c40, c41] \<and>
   fst (killExcept env_sweep ''v42'' state0) =
     Val (Some (Wrapped (multiError [Errno ''busy a40'', Errno ''busy a41''])))  \<and>
   (\<exists>new res. fst (killExcept env_sweep ''v42'' state0) = Val res \<and>
           trace (snd (killExcept env_sweep ''v42'' state0)) =
             trace (snd (docker env_sweep state0)) @ Ev (ListAll True) None # new \<and>
           map call_of new = concat (map sweepCalls (filter (sweepTarget ''v42'') [c40, c41, c42])) \<and>
           (res = None \<longleftrightarrow> removalErrors new = []) \<and>
           (\<forall>e. removalErrors new = [e] \<longrightarrow> res = Some (Wrap e)) \<and>
           (1 < length (removalErrors new) \<longrightarrow> res = Some (Wrapped (multiError (removalErrors new)))))"
proof -
  have h1: "snd (fst (docker env_sweep state0)) = None"
    by (simp add: prim_defs Let_def env_sweep_def env0_def state0_def deploy0_def)
  have h2: "on_list env_sweep (trace (snd (docker env_sweep state0))) True = Inr [c40, c41, c42]"
    by (simp add: env_sweep_def)
  have h3: "\<forall>c\<in>set [c40, c41, c42]. HasPrefix (Image_c c) (rellImage @ '':'') \<longrightarrow> tagFromNames (Names c) \<noteq> Panic"
    by (simp add: c40_def c41_def c42_def const_defs)
  have h4: "filter (sweepTarget ''v42'') [c40, c41, c42] = [c40, c41]"
    by (simp add: sweepTarget_def c40_def c41_def c42_def const_defs)
  have h5: "fst (killExcept env_sweep ''v42'' state0) =
     Val (Some (Wrapped (multiError [Errno ''busy a40'', Errno ''busy a41''])))"
    by (simp add: killExcept_def prim_defs Let_def const_defs env_sweep_def env0_def state0_def deploy0_def
          c40_def c41_def c42_def)
  from killExcept_collects_removal_errors[OF h1 h2 h3, of "''v42''"] h1 h2 h4 h5 show ?thesis
    by simp
qed

lemma unnamed_conf_path: "containerNginxConfPath (containerNameForTag []) = ''/etc/nginx/server/rell-.conf''"
  by (simp add: confPath_plain)

lemma killExcept_unnamed_sweep:
  assumes docker: "snd (fst (docker E s)) = None"
    and listed: "on_list E (trace (snd (docker E s))) True = Inr cs"
    and c: "c \<in> set cs" "HasPrefix (Image_c c) (rellImage @ '':'')"
    and names: "\<forall>n\<in>set (Names c). n \<noteq> [] \<and> \<not> HasPrefix (drop 1 n) rellContainerNamePrefix"
    and tag: "tag \<noteq> []"
    and nopanic: "\<forall>d\<in>set cs. HasPrefix (Image_c d) (rellImage @ '':'') \<longrightarrow> tagFromNames (Names d) \<noteq> Panic"
  shows "\<exists>pre r1 r2 r3 post.
           trace (snd (killExcept E tag s)) =
             trace (snd (docker E s)) @ Ev (ListAll True) None # pre @
               [Ev (RemoveFile ''/etc/nginx/server/rell-.conf'') r1, Ev (Stop (Id_c c) 30) r2,
                Ev (Remove (Id_c c)) r3] @ post \<and>
           (on_fault E (trace (snd (docker E s)) @ Ev (ListAll True) None # pre)
                (RemoveFile ''/etc/nginx/server/rell-.conf'') = None \<longrightarrow>
              files (snd (killExcept E tag s)) ''/etc/nginx/server/rell-.conf'' = None)"
proof -
  let ?p = "''/etc/nginx/server/rell-.conf''"
  let ?s2 = "(snd (docker E s))\<lparr>trace := trace (snd (docker E s)) @ [Ev (ListAll True) None]\<rparr>"
  from c(1) obtain xs ys where split: "cs = xs @ c # ys" by (meson split_list)
  have nx: "\<forall>d\<in>set xs. HasPrefix (Image_c d) (rellImage @ '':'') \<longrightarrow> tagFromNames (Names d) \<noteq> Panic"
    and ny: "\<forall>d\<in>set ys. HasPrefix (Image_c d) (rellImage @ '':'') \<longrightarrow> tagFromNames (Names d) \<noteq> Panic"
    using nopanic split by simp_all
  from killLoop_ok[OF nx, of E tag "[]" ?s2] obtain pre sa where
    xa: "killLoop E tag xs [] ?s2 = (Val ([] @ removalErrors pre), sa)" and ta: "trace sa = trace ?s2 @ pre"
    by blast
  have t: "tagFromNames (Names c) = Val []" using names by (rule tagFromNames_unnamed)
  have ne: "[] \<noteq> tag" using tag by simp
  let ?q = "containerNginxConfPath (containerNameForTag [])"
  from killLoop_step[OF c(2) t ne, of E ys "[] @ removalErrors pre" sa] obtain r1 r2 r3 s3 where
    st: "killLoop E tag (c # ys) ([] @ removalErrors pre) sa =
           killLoop E tag ys (([] @ removalErrors pre) @ (case r3 of None \<Rightarrow> [] | Some e \<Rightarrow> [e])) s3"
    and t3': "trace s3 = trace sa @ [Ev (RemoveFile ?q) r1, Ev (Stop (Id_c c) 30) r2, Ev (Remove (Id_c c)) r3]"
    and f3': "on_fault E (trace sa) (RemoveFile ?q) = None \<longrightarrow> files s3 ?q = None"
    by (elim exE conjE)
  have t3: "trace s3 = trace sa @ [Ev (RemoveFile ?p) r1, Ev (Stop (Id_c c) 30) r2, Ev (Remove (Id_c c)) r3]"
    using t3' by (simp only: unnamed_conf_path)
  have f3: "on_fault E (trace sa) (RemoveFile ?p) = None \<longrightarrow> files s3 ?p = None"
    using f3' by (simp only: unnamed_conf_path)
  let ?e3 = "([] @ removalErrors pre) @ (case r3 of None \<Rightarrow> [] | Some e \<Rightarrow> [e])"
  from killLoop_ok[OF ny, of E tag ?e3 s3] obtain post s' where
    yb: "killLoop E tag ys ?e3 s3 = (Val (?e3 @ removalErrors post), s')" and tb: "trace s' = trace s3 @ post"
    by blast
  from killLoop_frame[of E tag ys ?e3 s3] have keep: "files s3 ?p = None \<longrightarrow> files s' ?p = None"
    unfolding yb by (elim exE conjE) simp
  have whole: "killLoop E tag cs [] ?s2 = (Val (?e3 @ removalErrors post), s')"
    unfolding split killLoop_append xa using st yb by simp
  have fin: "snd (killExcept E tag s) = s'"
    by (rule killExcept_loop(1)[OF docker listed whole])
  have 1: "trace (snd (killExcept E tag s)) =
             trace (snd (docker E s)) @ Ev (ListAll True) None # pre @
               [Ev (RemoveFile ?p) r1, Ev (Stop (Id_c c) 30) r2, Ev (Remove (Id_c c)) r3] @ post"
    unfolding fin tb t3 ta by simp
  have 2: "on_fault E (trace (snd (docker E s)) @ Ev (ListAll True) None # pre) (RemoveFile ?p) = None \<longrightarrow>
              files (snd (killExcept E tag s)) ?p = None"
    unfolding fin using f3 keep ta by simp
  show ?thesis
    apply (rule exI[of _ pre], rule exI[of _ r1], rule exI[of _ r2], rule exI[of _ r3], rule exI[of _ post])
    using 1 2 by (intro conjI)
qed

lemma killExcept_panics:
  assumes docker: "snd (fst (docker E s)) = None"
    and listed: "on_list E (trace (snd (docker E s))) True = Inr cs"
    and c: "c \<in> set cs" "HasPrefix (Image_c c) (rellImage @ '':'')" "tagFromNames (Names c) = Panic"
  shows "fst (killExcept E tag s) = Panic"
proof -
  let ?s2 = "(snd (docker E s))\<lparr>trace := trace (snd (docker E s)) @ [Ev (ListAll True) None]\<rparr>"
  obtain r s' where k: "killLoop E tag cs [] ?s2 = (r, s')" by (cases "killLoop E tag cs [] ?s2")
  from killLoop_panics[OF c, of E tag "[]" ?s2] k have "r = Panic" by simp
  with killExcept_loop(2)[OF docker listed k] show ?thesis by simp
qed

text \<open>
  Claim C10. \<^verbatim>\<open>tagFromNames\<close> panics exactly when an empty name comes before the
  first name that carries the prefix \<^verbatim>\<open>rell-\<close> after its first byte; a listed
  container of the release image with such names makes \<^verbatim>\<open>killExcept\<close> panic. A
  release container with no empty name and no name with the prefix has the empty
  tag: when the tag to keep is not empty (and no other listed container makes the
  sweep panic), \<^verbatim>\<open>killExcept\<close> calls \<^verbatim>\<open>os.Remove\<close> on \<^verbatim>\<open>/etc/nginx/server/rell-.conf\<close>,
  then stops and removes that container; unless that \<^verbatim>\<open>os.Remove\<close> meets a fault, the
  file is absent at the end.
\<close>

theorem killExcept_unnamed_container:
  assumes docker: "snd (fst (docker E s)) = None"
    and listed: "on_list E (trace (snd (docker E s))) True = Inr cs"
    and c: "c \<in> set cs" "HasPrefix (Image_c c) (rellImage @ '':'')"
  shows "(tagFromNames names = Panic \<longleftrightarrow>
            [] \<in> set (takeWhile (\<lambda>n. \<not> HasPrefix (drop 1 n) rellContainerNamePrefix) names)) \<and>
         (tagFromNames (Names c) = Panic \<longrightarrow> fst (killExcept E tag s) = Panic) \<and>
         ((\<forall>n\<in>set (Names c). n \<noteq> [] \<and> \<not> HasPrefix (drop 1 n) rellContainerNamePrefix) \<and> tag \<noteq> [] \<and>
          (\<forall>d\<in>set cs. HasPrefix (Image_c d) (rellImage @ '':'') \<longrightarrow> tagFromNames (Names d) \<noteq> Panic) \<longrightarrow>
            tagFromNames (Names c) = Val [] \<and>
            (\<exists>pre r1 r2 r3 post.
               trace (snd (killExcept E tag s)) =
                 trace (snd (docker E s)) @ Ev (ListAll True) None # pre @
                   [Ev (RemoveFile ''/etc/nginx/server/rell-.conf'') r1, Ev (Stop (Id_c c) 30) r2,
                    Ev (Remove (Id_c c)) r3] @ post \<and>
               (on_fault E (trace (snd (docker E s)) @ Ev (ListAll True) None # pre)
                    (RemoveFile ''/etc/nginx/server/rell-.conf'') = None \<longrightarrow>
                  files (snd (killExcept E tag s)) ''/etc/nginx/server/rell-.conf'' = None)))"
proof (intro conjI impI)
  show "tagFromNames names = Panic \<longleftrightarrow>
          [] \<in> set (takeWhile (\<lambda>n. \<not> HasPrefix (drop 1 n) rellContainerNamePrefix) names)"
    by (rule tagFromNames_Panic_iff)
next
  assume "tagFromNames (Names c) = Panic"
  then show "fst (killExcept E tag s) = Panic"
    using killExcept_panics[OF docker listed c] by simp
next
  assume a: "(\<forall>n\<in>set (Names c). n \<noteq> [] \<and> \<not> HasPrefix (drop 1 n) rellContainerNamePrefix) \<and> tag \<noteq> [] \<and>
          (\<forall>d\<in>set cs. HasPrefix (Image_c d) (rellImage @ '':'') \<longrightarrow> tagFromNames (Names d) \<noteq> Panic)"
  then show "tagFromNames (Names c) = Val []" by (simp add: tagFromNames_unnamed)
  from a show "\<exists>pre r1 r2 r3 post.
               trace (snd (killExcept E tag s)) =
                 trace (snd (docker E s)) @ Ev (ListAll True) None # pre @
                   [Ev (RemoveFile ''/etc/nginx/server/rell-.conf'') r1, Ev (Stop (Id_c c) 30) r2,
                    Ev (Remove (Id_c c)) r3] @ post \<and>
               (on_fault E (trace (snd (docker E s)) @ Ev (ListAll True) None # pre)
                    (RemoveFile ''/etc/nginx/server/rell-.conf'') = None \<longrightarrow>
                  files (snd (killExcept E tag s)) ''/etc/nginx/server/rell-.conf'' = None)"
    using killExcept_unnamed_sweep[OF docker listed c, of tag] by simp
qed

theorem killExcept_unnamed_container_witness:
  "tagFromNames [[]] = Panic \<and>
   fst (killExcept env_noname ''v42'' state0) = Panic \<and>
   tagFromNames (Names c_web) = Val [] \<and>
   (\<exists>pre r1 r2 r3 post.
      trace (snd (killExcept env_web ''v42'' state_conf)) =
        trace (snd (docker env_web state_conf)) @ Ev (ListAll True) None # pre @
          [Ev (RemoveFile ''/etc/nginx/server/rell-.conf'') r1, Ev (Stop ''b7'' 30) r2,
           Ev (Remove ''b7'') r3] @ post \<and>
      files (snd (killExcept env_web ''v42'' state_conf)) ''/etc/nginx/server/rell-.conf'' = None)"
proof -
  have d1: "snd (fst (docker env_web state_conf)) = None"
    by (simp add: prim_defs Let_def env_web_def env0_def state_conf_def state0_def deploy0_def)
  have l1: "on_list env_web (trace (snd (docker env_web state_conf))) True = Inr [c_web, c42]"
    by (simp add: env_web_def)
  have m1: "c_web \<in> set [c_web, c42]" by simp
  have i1: "HasPrefix (Image_c c_web) (rellImage @ '':'')" by (simp add: c_web_def const_defs)
  note A = killExcept_unnamed_container[OF d1 l1 m1 i1, of "[[]]" "''v42''"]
  have p1: "[] \<in> set (takeWhile (\<lambda>n. \<not> HasPrefix (drop 1 n) rellContainerNamePrefix) [[]])"
    by (simp add: const_defs)
  have p3: "(\<forall>n\<in>set (Names c_web). n \<noteq> [] \<and> \<not> HasPrefix (drop 1 n) rellContainerNamePrefix) \<and> ''v42'' \<noteq> [] \<and>
          (\<forall>d\<in>set [c_web, c42]. HasPrefix (Image_c d) (rellImage @ '':'') \<longrightarrow> tagFromNames (Names d) \<noteq> Panic)"
    by (simp add: c_web_def c42_def const_defs)
  have nofault: "on_fault env_web h c = None" for h c
    by (simp add: env_web_def env0_def)
  have d2: "snd (fst (docker env_noname state0)) = None"
    by (simp add: prim_defs Let_def env_noname_def env0_def state0_def deploy0_def)
  have l2: "on_list env_noname (trace (snd (docker env_noname state0))) True = Inr [c_noname]"
    by (simp add: env_noname_def)
  have m2: "c_noname \<in> set [c_noname]" by simp
  have i2: "HasPrefix (Image_c c_noname) (rellImage @ '':'')" by (simp add: c_noname_def const_defs)
  note B = killExcept_unnamed_container[OF d2 l2 m2 i2, of "[[]]" "''v42''"]
  have p2: "tagFromNames (Names c_noname) = Panic" by (simp add: c_noname_def)
  have w1: "tagFromNames [[]] = Panic" using A p1 by blast
  have w2: "fst (killExcept env_noname ''v42'' state0) = Panic" using B p2 by blast
  have w3: "tagFromNames (Names c_web) = Val []" using A p3 by blast
  have w4: "\<exists>pre r1 r2 r3 post.
      trace (snd (killExcept env_web ''v42'' state_conf)) =
        trace (snd (docker env_web state_conf)) @ Ev (ListAll True) None # pre @
          [Ev (RemoveFile ''/etc/nginx/server/rell-.conf'') r1, Ev (Stop (Id_c c_web) 30) r2,
           Ev (Remove (Id_c c_web)) r3] @ post \<and>
      (on_fault env_web (trace (snd (docker env_web state_conf)) @ Ev (ListAll True) None # pre)
           (RemoveFile ''/etc/nginx/server/rell-.conf'') = None \<longrightarrow>
         files (snd (killExcept env_web ''v42'' state_conf)) ''/etc/nginx/server/rell-.conf'' = None)"
    by (rule A[THEN conjunct2, THEN conjunct2, THEN mp, OF p3, THEN conjunct2])
  have w5: "\<exists>pre r1 r2 r3 post.
      trace (snd (killExcept env_web ''v42'' state_conf)) =
        trace (snd (docker env_web state_conf)) @ Ev (ListAll True) None # pre @
          [Ev (RemoveFile ''/etc/nginx/server/rell-.conf'') r1, Ev (Stop ''b7'' 30) r2,
           Ev (Remove ''b7'') r3] @ post \<and>
      files (snd (killExcept env_web ''v42'' state_conf)) ''/etc/nginx/server/rell-.conf'' = None"
    using w4 by (simp add: nofault c_web_def)
  show ?thesis using w1 w2 w3 w5 by (intro conjI)
qed

subsection \<open>Containers that must run\<close>

lemma newEvents_append [simp]: "trace s' = trace s @ evs \<Longrightarrow> newEvents s s' = evs"
  by (simp add: newEvents_def)

lemma TrimSpace_examples:
  "TrimSpace ''PORT=43600'' = ''PORT=43600''" "TrimSpace [] = []"
  by code_simp+

lemma ioutil_ReadFile_eq:
  "ioutil_ReadFile E p s = (r, s') \<Longrightarrow> s' = s\<lparr>trace := trace s @ [Ev (ReadFile p) (err_of r)]\<rparr>"
  by (auto simp: ioutil_ReadFile_def record_call_def Let_def)

lemma rellCreateStart_cases:
  obtains
    (readfail) e where
      "rellCreateStart E tag s =
         (Some (Wrap e), s\<lparr>trace := trace s @ [Ev (ReadFile rellEnvFile) (Some e)]\<rparr>)"
  | (createfail) env e where
      "rellCreateStart E tag s =
         (Some (Wrap e), s\<lparr>trace := trace s @ [Ev (ReadFile rellEnvFile) None,
                                                Ev (Create (rellConfig tag env) (containerNameForTag tag)) (Some e)]\<rparr>)"
  | (started) env cid r where
      "on_create E (trace s @ [Ev (ReadFile rellEnvFile) None]) (rellConfig tag env) (containerNameForTag tag) = Inr cid"
      "rellCreateStart E tag s =
         (map_option Wrap r, s\<lparr>trace := trace s @ [Ev (ReadFile rellEnvFile) None,
                                                  Ev (Create (rellConfig tag env) (containerNameForTag tag)) None,
                                                  Ev (Start cid rellHost) r]\<rparr>)"
proof -
  obtain rf s1 where a: "ioutil_ReadFile E rellEnvFile s = (rf, s1)"
    by (cases "ioutil_ReadFile E rellEnvFile s")
  note s1' = ioutil_ReadFile_eq[OF a]
  show ?thesis
  proof (cases rf)
    case (Inl e)
    then have "rellCreateStart E tag s =
         (Some (Wrap e), s\<lparr>trace := trace s @ [Ev (ReadFile rellEnvFile) (Some e)]\<rparr>)"
      using a s1' by (simp add: rellCreateStart_def rellEnv_def err_of_def)
    then show ?thesis by (rule readfail)
  next
    case (Inr contents)
    define env where "env = filter (\<lambda>str. str \<noteq> []) (map TrimSpace (Split_lines contents))"
    have s1: "s1 = s\<lparr>trace := trace s @ [Ev (ReadFile rellEnvFile) None]\<rparr>"
      using s1' Inr by (simp add: err_of_def)
    have a: "rellEnv E s = (Inr env, s1)"
      using a Inr by (simp add: rellEnv_def env_def)
    note Inr = refl
    let ?cfg = "rellConfig tag env"
    let ?name = "containerNameForTag tag"
    show ?thesis
    proof (cases "on_create E (trace s1) ?cfg ?name")
      case (Inl e)
      then have "rellCreateStart E tag s =
         (Some (Wrap e), s\<lparr>trace := trace s @ [Ev (ReadFile rellEnvFile) None, Ev (Create ?cfg ?name) (Some e)]\<rparr>)"
        using a Inr s1
        by (simp add: rellCreateStart_def CreateContainer_def record_call_def err_of_def Let_def rellConfig_def)
      then show ?thesis by (rule createfail)
    next
      case cr: (Inr cid)
      let ?s2 = "s\<lparr>trace := trace s @ [Ev (ReadFile rellEnvFile) None, Ev (Create ?cfg ?name) None]\<rparr>"
      let ?r = "on_fault E (trace ?s2) (Start cid rellHost)"
      have "rellCreateStart E tag s =
         (map_option Wrap ?r, s\<lparr>trace := trace s @ [Ev (ReadFile rellEnvFile) None, Ev (Create ?cfg ?name) None,
                                                  Ev (Start cid rellHost) ?r]\<rparr>)"
        using a Inr s1 cr
        by (cases ?r)
           (simp_all add: rellCreateStart_def CreateContainer_def StartContainer_def plain_call_def
              record_call_def err_of_def Let_def rellConfig_def rellHost_def)
      moreover have "on_create E (trace s @ [Ev (ReadFile rellEnvFile) None]) ?cfg ?name = Inr cid"
        using cr s1 by simp
      ultimately show ?thesis by (rule started[rotated])
    qed
  qed
qed

lemma redisCreateStart_cases:
  obtains
    (createfail) e where
      "redisCreateStart E s =
         (Some (Wrap e), s\<lparr>trace := trace s @ [Ev (Create redisConfig redisContainerName) (Some e)]\<rparr>)"
  | (started) cid r where
      "on_create E (trace s) redisConfig redisContainerName = Inr cid"
      "redisCreateStart E s =
         (map_option Wrap r, s\<lparr>trace := trace s @ [Ev (Create redisConfig redisContainerName) None,
                                                  Ev (Start cid redisHost) r]\<rparr>)"
proof (cases "on_create E (trace s) redisConfig redisContainerName")
  case (Inl e)
  then have "redisCreateStart E s =
         (Some (Wrap e), s\<lparr>trace := trace s @ [Ev (Create redisConfig redisContainerName) (Some e)]\<rparr>)"
    by (simp add: redisCreateStart_def CreateContainer_def record_call_def err_of_def Let_def redisConfig_def)
  then show ?thesis by (rule createfail)
next
  case cr: (Inr cid)
  let ?s2 = "s\<lparr>trace := trace s @ [Ev (Create redisConfig redisContainerName) None]\<rparr>"
  let ?r = "on_fault E (trace ?s2) (Start cid redisHost)"
  have "redisCreateStart E s =
         (map_option Wrap ?r, s\<lparr>trace := trace s @ [Ev (Create redisConfig redisContainerName) None,
                                                  Ev (Start cid redisHost) ?r]\<rparr>)"
    using cr
    by (cases ?r)
       (simp_all add: redisCreateStart_def CreateContainer_def StartContainer_def plain_call_def
          record_call_def err_of_def Let_def redisConfig_def redisHost_def)
  with cr show ?thesis by (rule started)
qed

lemma docker_split:
  assumes "snd (fst (docker E s)) = None"
  obtains c where "docker E s = ((c, None), snd (docker E s))"
  using assms by (cases "docker E s") auto

lemma startRell_running:
  assumes "snd (fst (docker E s)) = None"
    and "on_inspect E (trace (snd (docker E s))) (containerNameForTag tag) = Inr ci" "Running ci"
  shows "startRell E tag s =
           (None, (snd (docker E s))\<lparr>trace := trace (snd (docker E s)) @ [Ev (Inspect (containerNameForTag tag)) None]\<rparr>)"
proof -
  from docker_split[OF assms(1)] obtain c where d: "docker E s = ((c, None), snd (docker E s))" .
  show ?thesis
    unfolding startRell_def by (subst d) (simp add: InspectContainer_def Let_def record_call_def err_of_def assms)
qed

lemma startRell_inspect_error:
  assumes "snd (fst (docker E s)) = None"
    and "on_inspect E (trace (snd (docker E s))) (containerNameForTag tag) = Inl e" "e \<noteq> ErrNotFound"
  shows "startRell E tag s =
           (Some (Wrap e), (snd (docker E s))\<lparr>trace := trace (snd (docker E s)) @ [Ev (Inspect (containerNameForTag tag)) (Some e)]\<rparr>)"
proof -
  from docker_split[OF assms(1)] obtain c where d: "docker E s = ((c, None), snd (docker E s))" .
  show ?thesis
    unfolding startRell_def by (subst d) (simp add: InspectContainer_def Let_def record_call_def err_of_def assms)
qed

lemma startRell_absent:
  assumes "snd (fst (docker E s)) = None"
    and "on_inspect E (trace (snd (docker E s))) (containerNameForTag tag) = Inl ErrNotFound"
  shows "startRell E tag s =
           rellCreateStart E tag
             ((snd (docker E s))\<lparr>trace := trace (snd (docker E s)) @
                 [Ev (Inspect (containerNameForTag tag)) (Some ErrNotFound)]\<rparr>)"
proof -
  from docker_split[OF assms(1)] obtain c where d: "docker E s = ((c, None), snd (docker E s))" .
  show ?thesis
    unfolding startRell_def by (subst d) (simp add: InspectContainer_def Let_def record_call_def err_of_def assms)
qed

lemma startRell_stale:
  assumes "snd (fst (docker E s)) = None"
    and "on_inspect E (trace (snd (docker E s))) (containerNameForTag tag) = Inr ci" "\<not> Running ci"
    and "r = on_fault E (trace (snd (docker E s)) @ [Ev (Inspect (containerNameForTag tag)) None])
                (Remove (containerNameForTag tag))"
    and "s3 = (snd (docker E s))\<lparr>trace := trace (snd (docker E s)) @
                 [Ev (Inspect (containerNameForTag tag)) None, Ev (Remove (containerNameForTag tag)) r]\<rparr>"
  shows "startRell E tag s = (case r of Some e \<Rightarrow> (Some (Wrap e), s3) | None \<Rightarrow> rellCreateStart E tag s3)"
proof -
  from docker_split[OF assms(1)] obtain c where d: "docker E s = ((c, None), snd (docker E s))" .
  show ?thesis
    unfolding startRell_def
    by (subst d)
       (simp add: InspectContainer_def RemoveContainer_def plain_call_def Let_def record_call_def
          err_of_def assms split: option.splits)
qed

lemma startRedis_running:
  assumes "snd (fst (docker E s)) = None"
    and "on_inspect E (trace (snd (docker E s))) redisContainerName = Inr ci" "Running ci"
  shows "startRedis E s =
           (None, (snd (docker E s))\<lparr>trace := trace (snd (docker E s)) @ [Ev (Inspect redisContainerName) None]\<rparr>)"
proof -
  from docker_split[OF assms(1)] obtain c where d: "docker E s = ((c, None), snd (docker E s))" .
  show ?thesis
    unfolding startRedis_def by (subst d) (simp add: InspectContainer_def Let_def record_call_def err_of_def assms)
qed

lemma startRedis_inspect_error:
  assumes "snd (fst (docker E s)) = None"
    and "on_inspect E (trace (snd (docker E s))) redisContainerName = Inl e" "e \<noteq> ErrNotFound"
  shows "startRedis E s =
           (Some (Wrap e), (snd (docker E s))\<lparr>trace := trace (snd (docker E s)) @ [Ev (Inspect redisContainerName) (Some e)]\<rparr>)"
proof -
  from docker_split[OF assms(1)] obtain c where d: "docker E s = ((c, None), snd (docker E s))" .
  show ?thesis
    unfolding startRedis_def by (subst d) (simp add: InspectContainer_def Let_def record_call_def err_of_def assms)
qed

lemma startRedis_absent:
  assumes "snd (fst (docker E s)) = None"
    and "on_inspect E (trace (snd (docker E s))) redisContainerName = Inl ErrNotFound"
  shows "startRedis E s =
           redisCreateStart E
             ((snd (docker E s))\<lparr>trace := trace (snd (docker E s)) @
                 [Ev (Inspect redisContainerName) (Some ErrNotFound)]\<rparr>)"
proof -
  from docker_split[OF assms(1)] obtain c where d: "docker E s = ((c, None), snd (docker E s))" .
  show ?thesis
    unfolding startRedis_def by (subst d) (simp add: InspectContainer_def Let_def record_call_def err_of_def assms)
qed

lemma startRedis_stale:
  assumes "snd (fst (docker E s)) = None"
    and "on_inspect E (trace (snd (docker E s))) redisContainerName = Inr ci" "\<not> Running ci"
    and "r = on_fault E (trace (snd (docker E s)) @ [Ev (Inspect redisContainerName) None])
                (Remove redisContainerName)"
    and "s3 = (snd (docker E s))\<lparr>trace := trace (snd (docker E s)) @
                 [Ev (Inspect redisContainerName) None, Ev (Remove redisContainerName) r]\<rparr>"
  shows "startRedis E s = (case r of Some e \<Rightarrow> (Some (Wrap e), s3) | None \<Rightarrow> redisCreateStart E s3)"
proof -
  from docker_split[OF assms(1)] obtain c where d: "docker E s = ((c, None), snd (docker E s))" .
  show ?thesis
    unfolding startRedis_def
    by (subst d)
       (simp add: InspectContainer_def RemoveContainer_def plain_call_def Let_def record_call_def
          err_of_def assms split: option.splits)
qed

lemma startRell_stale_trace:
  assumes d: "snd (fst (docker E s)) = None"
    and i: "on_inspect E (trace (snd (docker E s))) (containerNameForTag tag) = Inr ci" "\<not> Running ci"
  shows "\<exists>r rest.
           trace (snd (startRell E tag s)) =
             trace (snd (docker E s)) @
               Ev (Inspect (containerNameForTag tag)) None # Ev (Remove (containerNameForTag tag)) r # rest \<and>
           (r \<noteq> None \<longrightarrow> rest = [] \<and> fst (startRell E tag s) = map_option Wrap r) \<and>
           (\<forall>x hc q. Ev (Start x hc) q \<in> set rest \<longrightarrow>
              (\<exists>pre cfg. rest = pre @ [Ev (Create cfg (containerNameForTag tag)) None, Ev (Start x hc) q] \<and>
                 on_create E (trace (snd (docker E s)) @
                     Ev (Inspect (containerNameForTag tag)) None # Ev (Remove (containerNameForTag tag)) r # pre)
                   cfg (containerNameForTag tag) = Inr x))"
proof -
  let ?n = "containerNameForTag tag"
  let ?h = "trace (snd (docker E s))"
  define r where "r = on_fault E (?h @ [Ev (Inspect ?n) None]) (Remove ?n)"
  define s3 where "s3 = (snd (docker E s))\<lparr>trace := ?h @ [Ev (Inspect ?n) None, Ev (Remove ?n) r]\<rparr>"
  note st = startRell_stale[OF d i r_def s3_def]
  let ?goal = "\<lambda>rest.
           trace (snd (startRell E tag s)) = ?h @ Ev (Inspect ?n) None # Ev (Remove ?n) r # rest \<and>
           (r \<noteq> None \<longrightarrow> rest = [] \<and> fst (startRell E tag s) = map_option Wrap r) \<and>
           (\<forall>x hc q. Ev (Start x hc) q \<in> set rest \<longrightarrow>
              (\<exists>pre cfg. rest = pre @ [Ev (Create cfg ?n) None, Ev (Start x hc) q] \<and>
                 on_create E (?h @ Ev (Inspect ?n) None # Ev (Remove ?n) r # pre) cfg ?n = Inr x))"
  have "\<exists>rest. ?goal rest"
  proof (cases r)
    case (Some e)
    then have "?goal []" using st by (simp add: s3_def)
    then show ?thesis ..
  next
    case None
    then have run: "startRell E tag s = rellCreateStart E tag s3" using st by simp
    have h3: "trace s3 = ?h @ [Ev (Inspect ?n) None, Ev (Remove ?n) r]" by (simp add: s3_def)
    show ?thesis
    proof (cases E tag s3 rule: rellCreateStart_cases)
      case (readfail e)
      then have "?goal [Ev (ReadFile rellEnvFile) (Some e)]"
        using None by (simp add: run h3)
      then show ?thesis ..
    next
      case (createfail env e)
      then have "?goal [Ev (ReadFile rellEnvFile) None, Ev (Create (rellConfig tag env) ?n) (Some e)]"
        using None by (simp add: run h3)
      then show ?thesis ..
    next
      case (started env cid q)
      let ?rest = "[Ev (ReadFile rellEnvFile) None, Ev (Create (rellConfig tag env) ?n) None,
                    Ev (Start cid rellHost) q]"
      have a: "trace (snd (startRell E tag s)) = ?h @ Ev (Inspect ?n) None # Ev (Remove ?n) r # ?rest"
        using started(2) by (simp add: run h3)
      have b: "?rest = [Ev (ReadFile rellEnvFile) None] @ [Ev (Create (rellConfig tag env) ?n) None, Ev (Start cid rellHost) q]"
        by simp
      have c: "on_create E (?h @ Ev (Inspect ?n) None # Ev (Remove ?n) r # [Ev (ReadFile rellEnvFile) None])
                 (rellConfig tag env) ?n = Inr cid"
        using started(1) by (simp add: h3)
      have "?goal ?rest"
      proof (intro conjI allI impI)
        show "trace (snd (startRell E tag s)) = ?h @ Ev (Inspect ?n) None # Ev (Remove ?n) r # ?rest" by (rule a)
      next
        assume "r \<noteq> None" then show "?rest = []" using None by simp
      next
        assume "r \<noteq> None" then show "fst (startRell E tag s) = map_option Wrap r" using None by simp
      next
        fix x hc q'
        assume "Ev (Start x hc) q' \<in> set ?rest"
        then have "x = cid" "hc = rellHost" "q' = q" by simp_all
        with c show "\<exists>pre cfg. ?rest = pre @ [Ev (Create cfg ?n) None, Ev (Start x hc) q'] \<and>
                 on_create E (?h @ Ev (Inspect ?n) None # Ev (Remove ?n) r # pre) cfg ?n = Inr x"
          by (intro exI[of _ "[Ev (ReadFile rellEnvFile) None]"] exI[of _ "rellConfig tag env"]) simp
      qed
      then show ?thesis ..
    qed
  qed
  then obtain rest where "?goal rest" ..
  then show ?thesis by (intro exI[of _ r] exI[of _ rest])
qed

lemma startRedis_stale_trace:
  assumes d: "snd (fst (docker E s)) = None"
    and i: "on_inspect E (trace (snd (docker E s))) redisContainerName = Inr ci" "\<not> Running ci"
  shows "\<exists>r rest.
           trace (snd (startRedis E s)) =
             trace (snd (docker E s)) @
               Ev (Inspect redisContainerName) None # Ev (Remove redisContainerName) r # rest \<and>
           (r \<noteq> None \<longrightarrow> rest = [] \<and> fst (startRedis E s) = map_option Wrap r) \<and>
           (\<forall>x hc q. Ev (Start x hc) q \<in> set rest \<longrightarrow>
              (\<exists>pre cfg. rest = pre @ [Ev (Create cfg redisContainerName) None, Ev (Start x hc) q] \<and>
                 on_create E (trace (snd (docker E s)) @
                     Ev (Inspect redisContainerName) None # Ev (Remove redisContainerName) r # pre)
                   cfg redisContainerName = Inr x))"
proof -
  let ?n = "redisContainerName"
  let ?h = "trace (snd (docker E s))"
  define r where "r = on_fault E (?h @ [Ev (Inspect ?n) None]) (Remove ?n)"
  define s3 where "s3 = (snd (docker E s))\<lparr>trace := ?h @ [Ev (Inspect ?n) None, Ev (Remove ?n) r]\<rparr>"
  note st = startRedis_stale[OF d i r_def s3_def]
  let ?goal = "\<lambda>rest.
           trace (snd (startRedis E s)) = ?h @ Ev (Inspect ?n) None # Ev (Remove ?n) r # rest \<and>
           (r \<noteq> None \<longrightarrow> rest = [] \<and> fst (startRedis E s) = map_option Wrap r) \<and>
           (\<forall>x hc q. Ev (Start x hc) q \<in> set rest \<longrightarrow>
              (\<exists>pre cfg. rest = pre @ [Ev (Create cfg ?n) None, Ev (Start x hc) q] \<and>
                 on_create E (?h @ Ev (Inspect ?n) None # Ev (Remove ?n) r # pre) cfg ?n = Inr x))"
  have "\<exists>rest. ?goal rest"
  proof (cases r)
    case (Some e)
    then have "?goal []" using st by (simp add: s3_def)
    then show ?thesis ..
  next
    case None
    then have run: "startRedis E s = redisCreateStart E s3" using st by simp
    have h3: "trace s3 = ?h @ [Ev (Inspect ?n) None, Ev (Remove ?n) r]" by (simp add: s3_def)
    show ?thesis
    proof (cases E s3 rule: redisCreateStart_cases)
      case (createfail e)
      then have "?goal [Ev (Create redisConfig ?n) (Some e)]"
        using None by (simp add: run h3)
      then show ?thesis ..
    next
      case (started cid q)
      let ?rest = "[Ev (Create redisConfig ?n) None, Ev (Start cid redisHost) q]"
      have a: "trace (snd (startRedis E s)) = ?h @ Ev (Inspect ?n) None # Ev (Remove ?n) r # ?rest"
        using started(2) by (simp add: run h3)
      have c: "on_create E (?h @ Ev (Inspect ?n) None # Ev (Remove ?n) r # []) redisConfig ?n = Inr cid"
        using started(1) by (simp add: h3)
      have "?goal ?rest"
      proof (intro conjI allI impI)
        show "trace (snd (startRedis E s)) = ?h @ Ev (Inspect ?n) None # Ev (Remove ?n) r # ?rest" by (rule a)
      next
        assume "r \<noteq> None" then show "?rest = []" using None by simp
      next
        assume "r \<noteq> None" then show "fst (startRedis E s) = map_option Wrap r" using None by simp
      next
        fix x hc q'
        assume "Ev (Start x hc) q' \<in> set ?rest"
        then have "x = cid" "hc = redisHost" "q' = q" by simp_all
        with c show "\<exists>pre cfg. ?rest = pre @ [Ev (Create cfg ?n) None, Ev (Start x hc) q'] \<and>
                 on_create E (?h @ Ev (Inspect ?n) None # Ev (Remove ?n) r # pre) cfg ?n = Inr x"
          by (intro exI[of _ "[]"] exI[of _ redisConfig]) simp
      qed
      then show ?thesis ..
    qed
  qed
  then obtain rest where "?goal rest" ..
  then show ?thesis by (intro exI[of _ r] exI[of _ rest])
qed

text \<open>
  Claim C7. When the client is there and the daemon reports the container of the
  tag as existing and not running, \<^verbatim>\<open>startRell\<close> inspects, then removes the container
  by its name; when the removal fails it makes no further call and returns that
  error, wrapped. \<^verbatim>\<open>StartContainer\<close> is called at most once, as the last call, right
  after the \<^verbatim>\<open>CreateContainer\<close> that succeeded, and on the id that this creation
  returned, never on the container found. An error of the inspection other than
  \<^verbatim>\<open>ErrNotFound\<close> is returned wrapped after that one call. \<^verbatim>\<open>startRedis\<close> does the same
  for the cache container.
\<close>

theorem ensureRunning_replaces_stale:
  assumes "snd (fst (docker E s)) = None"
  shows "(\<forall>ci. on_inspect E (trace (snd (docker E s))) (containerNameForTag tag) = Inr ci \<and> \<not> Running ci \<longrightarrow>
           (\<exists>r rest.
              trace (snd (startRell E tag s)) =
                trace (snd (docker E s)) @
                  Ev (Inspect (containerNameForTag tag)) None # Ev (Remove (containerNameForTag tag)) r # rest \<and>
              (r \<noteq> None \<longrightarrow> rest = [] \<and> fst (startRell E tag s) = map_option Wrap r) \<and>
              (\<forall>x hc q. Ev (Start x hc) q \<in> set rest \<longrightarrow>
                 (\<exists>pre cfg. rest = pre @ [Ev (Create cfg (containerNameForTag tag)) None, Ev (Start x hc) q] \<and>
                    on_create E (trace (snd (docker E s)) @
                        Ev (Inspect (containerNameForTag tag)) None # Ev (Remove (containerNameForTag tag)) r # pre)
                      cfg (containerNameForTag tag) = Inr x)))) \<and>
         (\<forall>e. on_inspect E (trace (snd (docker E s))) (containerNameForTag tag) = Inl e \<and> e \<noteq> ErrNotFound \<longrightarrow>
            fst (startRell E tag s) = Some (Wrap e) \<and>
            trace (snd (startRell E tag s)) =
              trace (snd (docker E s)) @ [Ev (Inspect (containerNameForTag tag)) (Some e)]) \<and>
         (\<forall>ci. on_inspect E (trace (snd (docker E s))) redisContainerName = Inr ci \<and> \<not> Running ci \<longrightarrow>
           (\<exists>r rest.
              trace (snd (startRedis E s)) =
                trace (snd (docker E s)) @
                  Ev (Inspect redisContainerName) None # Ev (Remove redisContainerName) r # rest \<and>
              (r \<noteq> None \<longrightarrow> rest = [] \<and> fst (startRedis E s) = map_option Wrap r) \<and>
              (\<forall>x hc q. Ev (Start x hc) q \<in> set rest \<longrightarrow>
                 (\<exists>pre cfg. rest = pre @ [Ev (Create cfg redisContainerName) None, Ev (Start x hc) q] \<and>
                    on_create E (trace (snd (docker E s)) @
                        Ev (Inspect redisContainerName) None # Ev (Remove redisContainerName) r # pre)
                      cfg redisContainerName = Inr x)))) \<and>
         (\<forall>e. on_inspect E (trace (snd (docker E s))) redisContainerName = Inl e \<and> e \<noteq> ErrNotFound \<longrightarrow>
            fst (startRedis E s) = Some (Wrap e) \<and>
            trace (snd (startRedis E s)) =
              trace (snd (docker E s)) @ [Ev (Inspect redisContainerName) (Some e)])"
proof (intro conjI allI impI)
  fix ci
  assume "on_inspect E (trace (snd (docker E s))) (containerNameForTag tag) = Inr ci \<and> \<not> Running ci"
  then show "\<exists>r rest.
              trace (snd (startRell E tag s)) =
                trace (snd (docker E s)) @
                  Ev (Inspect (containerNameForTag tag)) None # Ev (Remove (containerNameForTag tag)) r # rest \<and>
              (r \<noteq> None \<longrightarrow> rest = [] \<and> fst (startRell E tag s) = map_option Wrap r) \<and>
              (\<forall>x hc q. Ev (Start x hc) q \<in> set rest \<longrightarrow>
                 (\<exists>pre cfg. rest = pre @ [Ev (Create cfg (containerNameForTag tag)) None, Ev (Start x hc) q] \<and>
                    on_create E (trace (snd (docker E s)) @
                        Ev (Inspect (containerNameForTag tag)) None # Ev (Remove (containerNameForTag tag)) r # pre)
                      cfg (containerNameForTag tag) = Inr x))"
    using startRell_stale_trace[OF assms, of tag ci] by (elim conjE) assumption
next
  fix e
  assume a: "on_inspect E (trace (snd (docker E s))) (containerNameForTag tag) = Inl e \<and> e \<noteq> ErrNotFound"
  then have run: "startRell E tag s =
           (Some (Wrap e), (snd (docker E s))\<lparr>trace := trace (snd (docker E s)) @ [Ev (Inspect (containerNameForTag tag)) (Some e)]\<rparr>)"
    using startRell_inspect_error[OF assms, of tag e] by (elim conjE) assumption
  show "fst (startRell E tag s) = Some (Wrap e)" by (simp add: run)
  show "trace (snd (startRell E tag s)) =
          trace (snd (docker E s)) @ [Ev (Inspect (containerNameForTag tag)) (Some e)]"
    by (simp add: run)
next
  fix ci
  assume "on_inspect E (trace (snd (docker E s))) redisContainerName = Inr ci \<and> \<not> Running ci"
  then show "\<exists>r rest.
              trace (snd (startRedis E s)) =
                trace (snd (docker E s)) @
                  Ev (Inspect redisContainerName) None # Ev (Remove redisContainerName) r # rest \<and>
              (r \<noteq> None \<longrightarrow> rest = [] \<and> fst (startRedis E s) = map_option Wrap r) \<and>
              (\<forall>x hc q. Ev (Start x hc) q \<in> set rest \<longrightarrow>
                 (\<exists>pre cfg. rest = pre @ [Ev (Create cfg redisContainerName) None, Ev (Start x hc) q] \<and>
                    on_create E (trace (snd (docker E s)) @
                        Ev (Inspect redisContainerName) None # Ev (Remove redisContainerName) r # pre)
                      cfg redisContainerName = Inr x))"
    using startRedis_stale_trace[OF assms, of ci] by (elim conjE) assumption
next
  fix e
  assume a: "on_inspect E (trace (snd (docker E s))) redisContainerName = Inl e \<and> e \<noteq> ErrNotFound"
  then have run: "startRedis E s =
           (Some (Wrap e), (snd (docker E s))\<lparr>trace := trace (snd (docker E s)) @ [Ev (Inspect redisContainerName) (Some e)]\<rparr>)"
    using startRedis_inspect_error[OF assms, of e] by (elim conjE) assumption
  show "fst (startRedis E s) = Some (Wrap e)" by (simp add: run)
  show "trace (snd (startRedis E s)) =
          trace (snd (docker E s)) @ [Ev (Inspect redisContainerName) (Some e)]"
    by (simp add: run)
qed

theorem ensureRunning_replaces_stale_witness:
  "snd (fst (docker env_stale state1)) = None \<and>
   on_inspect env_stale (trace (snd (docker env_stale state1))) (containerNameForTag ''v42'') = Inr ci_stale \<and>
   \<not> Running ci_stale \<and>
   trace (snd (startRell env_stale ''v42'' state1)) =
     [Ev (Dial ''unix:///var/run/docker.sock'') None,
      Ev (Inspect ''rell-v42'') None, Ev (Remove ''rell-v42'') None,
      Ev (ReadFile ''/etc/conf.d/rell'') None,
      Ev (Create \<lparr>User = ''15151'', Image_cfg = ''daaku/rell:v42'', Env = [''PORT=43600'']\<rparr> ''rell-v42'') None,
      Ev (Start ''id-rell-v42'' \<lparr>Binds = [], Links = [''redis:redis'']\<rparr>) None] \<and>
   (\<exists>r rest.
      trace (snd (startRell env_stale ''v42'' state1)) =
        trace (snd (docker env_stale state1)) @
          Ev (Inspect (containerNameForTag ''v42'')) None # Ev (Remove (containerNameForTag ''v42'')) r # rest \<and>
      (\<forall>x hc q. Ev (Start x hc) q \<in> set rest \<longrightarrow>
         (\<exists>pre cfg. rest = pre @ [Ev (Create cfg (containerNameForTag ''v42'')) None, Ev (Start x hc) q] \<and>
            on_create env_stale (trace (snd (docker env_stale state1)) @
                Ev (Inspect (containerNameForTag ''v42'')) None # Ev (Remove (containerNameForTag ''v42'')) r # pre)
              cfg (containerNameForTag ''v42'') = Inr x))) \<and>
   (\<exists>r rest.
      trace (snd (startRedis env_stale state1)) =
        trace (snd (docker env_stale state1)) @
          Ev (Inspect redisContainerName) None # Ev (Remove redisContainerName) r # rest) \<and>
   fst (startRell env_broken ''v42'' state1) = Some (Wrapped (Errno ''EOF'')) \<and>
   fst (startRedis env_broken state1) = Some (Wrapped (Errno ''EOF''))"
proof -
  have d1: "snd (fst (docker env_stale state1)) = None"
    by (simp add: prim_defs Let_def env_stale_def env0_def state1_def state0_def deploy0_def)
  have d2: "snd (fst (docker env_broken state1)) = None"
    by (simp add: prim_defs Let_def env_broken_def env0_def state1_def state0_def deploy0_def)
  have i1: "on_inspect env_stale (trace (snd (docker env_stale state1))) (containerNameForTag ''v42'') = Inr ci_stale"
    by (simp add: env_stale_def)
  have i2: "on_inspect env_stale (trace (snd (docker env_stale state1))) redisContainerName = Inr ci_stale"
    by (simp add: env_stale_def)
  have n1: "\<not> Running ci_stale" by (simp add: ci_stale_def)
  have e1: "on_inspect env_broken (trace (snd (docker env_broken state1))) (containerNameForTag ''v42'') = Inl (Errno ''EOF'')"
    by (simp add: env_broken_def)
  have e2: "on_inspect env_broken (trace (snd (docker env_broken state1))) redisContainerName = Inl (Errno ''EOF'')"
    by (simp add: env_broken_def)
  have ne: "Errno ''EOF'' \<noteq> ErrNotFound" by simp
  note A = ensureRunning_replaces_stale[OF d1, of "''v42''"]
  note B = ensureRunning_replaces_stale[OF d2, of "''v42''"]
  note A1 = A[THEN conjunct1, THEN spec[where x = ci_stale], THEN mp, OF conjI[OF i1 n1]]
  note A3 = A[THEN conjunct2, THEN conjunct2, THEN conjunct1, THEN spec[where x = ci_stale], THEN mp, OF conjI[OF i2 n1]]
  note B2 = B[THEN conjunct2, THEN conjunct1, THEN spec[where x = "Errno ''EOF''"], THEN mp, OF conjI[OF e1 ne]]
  note B4 = B[THEN conjunct2, THEN conjunct2, THEN conjunct2, THEN spec[where x = "Errno ''EOF''"], THEN mp, OF conjI[OF e2 ne]]
  have w1: "\<exists>r rest.
      trace (snd (startRell env_stale ''v42'' state1)) =
        trace (snd (docker env_stale state1)) @
          Ev (Inspect (containerNameForTag ''v42'')) None # Ev (Remove (containerNameForTag ''v42'')) r # rest \<and>
      (\<forall>x hc q. Ev (Start x hc) q \<in> set rest \<longrightarrow>
         (\<exists>pre cfg. rest = pre @ [Ev (Create cfg (containerNameForTag ''v42'')) None, Ev (Start x hc) q] \<and>
            on_create env_stale (trace (snd (docker env_stale state1)) @
                Ev (Inspect (containerNameForTag ''v42'')) None # Ev (Remove (containerNameForTag ''v42'')) r # pre)
              cfg (containerNameForTag ''v42'') = Inr x))"
  proof -
    from A1 obtain r rest where
      "trace (snd (startRell env_stale ''v42'' state1)) =
        trace (snd (docker env_stale state1)) @
          Ev (Inspect (containerNameForTag ''v42'')) None # Ev (Remove (containerNameForTag ''v42'')) r # rest"
      "\<forall>x hc q. Ev (Start x hc) q \<in> set rest \<longrightarrow>
         (\<exists>pre cfg. rest = pre @ [Ev (Create cfg (containerNameForTag ''v42'')) None, Ev (Start x hc) q] \<and>
            on_create env_stale (trace (snd (docker env_stale state1)) @
                Ev (Inspect (containerNameForTag ''v42'')) None # Ev (Remove (containerNameForTag ''v42'')) r # pre)
              cfg (containerNameForTag ''v42'') = Inr x)"
      by (elim exE conjE)
    then show ?thesis by (intro exI[of _ r] exI[of _ rest] conjI)
  qed
  have w2: "\<exists>r rest.
      trace (snd (startRedis env_stale state1)) =
        trace (snd (docker env_stale state1)) @
          Ev (Inspect redisContainerName) None # Ev (Remove redisContainerName) r # rest"
  proof -
    from A3 obtain r rest where
      "trace (snd (startRedis env_stale state1)) =
        trace (snd (docker env_stale state1)) @
          Ev (Inspect redisContainerName) None # Ev (Remove redisContainerName) r # rest"
      by (elim exE conjE)
    then show ?thesis by (intro exI[of _ r] exI[of _ rest])
  qed
  have w3: "fst (startRell env_broken ''v42'' state1) = Some (Wrapped (Errno ''EOF''))"
    using B2 by simp
  have w4: "fst (startRedis env_broken state1) = Some (Wrapped (Errno ''EOF''))"
    using B4 by simp
  have w5: "trace (snd (startRell env_stale ''v42'' state1)) =
     [Ev (Dial ''unix:///var/run/docker.sock'') None,
      Ev (Inspect ''rell-v42'') None, Ev (Remove ''rell-v42'') None,
      Ev (ReadFile ''/etc/conf.d/rell'') None,
      Ev (Create \<lparr>User = ''15151'', Image_cfg = ''daaku/rell:v42'', Env = [''PORT=43600'']\<rparr> ''rell-v42'') None,
      Ev (Start ''id-rell-v42'' \<lparr>Binds = [], Links = [''redis:redis'']\<rparr>) None]"
    by (simp add: startRell_def rellCreateStart_def rellEnv_def prim_defs Let_def const_defs
          env_stale_def env0_def state1_def state0_def deploy0_def ci_stale_def
          rellEnvFile_def rellUser_def redisContainerLink_def TrimSpace_examples)
  show ?thesis using d1 i1 n1 w5 w1 w2 w3 w4 by (intro conjI)
qed

lemma docker_memo:
  "clientOnce (deploy s) \<Longrightarrow> docker E s = ((client (deploy s), map_option Wrap (clientErr (deploy s))), s)"
  by (simp add: docker_def)

lemma docker_sets_once: "clientOnce (deploy (snd (docker E s)))"
  by (simp add: docker_def Let_def record_call_def split: sum.splits)

lemma docker_result: "fst (docker E s) = (client (deploy (snd (docker E s))), map_option Wrap (clientErr (deploy (snd (docker E s)))))"
  by (simp add: docker_def Let_def)

lemma docker_again:
  assumes "deploy s' = deploy (snd (docker E s))"
  shows "docker E' s' = (fst (docker E s), s')"
  using docker_memo[of s' E'] docker_sets_once[of E s] docker_result[of E s] assms by simp

lemma counts_simps [simp]:
  "creates [] = 0" "starts [] = 0" "removes [] = 0"
  "creates (Ev c r # evs) = (case c of Create cfg n \<Rightarrow> Suc (creates evs) | _ \<Rightarrow> creates evs)"
  "starts (Ev c r # evs) = (case c of Start x hc \<Rightarrow> Suc (starts evs) | _ \<Rightarrow> starts evs)"
  "removes (Ev c r # evs) = (case c of Remove x \<Rightarrow> Suc (removes evs) | _ \<Rightarrow> removes evs)"
  "creates (xs @ ys) = creates xs + creates ys"
  "starts (xs @ ys) = starts xs + starts ys"
  "removes (xs @ ys) = removes xs + removes ys"
  by (simp_all add: creates_def starts_def removes_def split: call.splits)

lemma dial_counts:
  assumes "\<forall>ev\<in>set evs. \<exists>u. call_of ev = Dial u"
  shows "creates evs = 0 \<and> starts evs = 0 \<and> removes evs = 0"
  using assms by (induction evs) (auto simp: creates_def starts_def removes_def)

lemma startRell_success:
  assumes ok: "fst (startRell E tag s) = None"
  shows "snd (fst (docker E s)) = None \<and>
         (\<exists>new. snd (startRell E tag s) = (snd (docker E s))\<lparr>trace := trace (snd (docker E s)) @ new\<rparr> \<and>
            creates new = (if wasRunning E (containerNameForTag tag) s then 0 else 1) \<and>
            starts new = (if wasRunning E (containerNameForTag tag) s then 0 else 1) \<and>
            removes new \<le> 1)"
proof -
  let ?n = "containerNameForTag tag"
  let ?s1 = "snd (docker E s)"
  have d: "snd (fst (docker E s)) = None"
  proof (rule ccontr)
    assume "snd (fst (docker E s)) \<noteq> None"
    then obtain c e s1 where "docker E s = ((c, Some e), s1)" by (cases "docker E s") auto
    then have "fst (startRell E tag s) = Some e" by (simp add: startRell_def)
    with ok show False by simp
  qed
  let ?P = "\<lambda>new. snd (startRell E tag s) = ?s1\<lparr>trace := trace ?s1 @ new\<rparr> \<and>
            creates new = (if wasRunning E ?n s then 0 else 1) \<and>
            starts new = (if wasRunning E ?n s then 0 else 1) \<and> removes new \<le> 1"
  have tail: "\<exists>new. ?P new"
    if run: "startRell E tag s = rellCreateStart E tag (?s1\<lparr>trace := trace ?s1 @ pre\<rparr>)"
      and pre: "creates pre = 0" "starts pre = 0" "removes pre \<le> 1"
      and nr: "\<not> wasRunning E ?n s" for pre
  proof (cases E tag "?s1\<lparr>trace := trace ?s1 @ pre\<rparr>" rule: rellCreateStart_cases)
    case (readfail e)
    with ok run show ?thesis by simp
  next
    case (createfail env e)
    with ok run show ?thesis by simp
  next
    case (started env cid r)
    with ok run have r: "r = None" by simp
    have "?P (pre @ [Ev (ReadFile rellEnvFile) None, Ev (Create (rellConfig tag env) ?n) None,
                     Ev (Start cid rellHost) r])"
      using started(2) run pre nr by simp
    then show ?thesis ..
  qed
  show ?thesis
  proof (cases "on_inspect E (trace ?s1) ?n")
    case (Inr ci)
    show ?thesis
    proof (cases "Running ci")
      case True
      have "?P [Ev (Inspect ?n) None]"
        using startRell_running[OF d Inr True] Inr True by (simp add: wasRunning_def)
      then show ?thesis using d by blast
    next
      case False
      define r where "r = on_fault E (trace ?s1 @ [Ev (Inspect ?n) None]) (Remove ?n)"
      define s3 where "s3 = ?s1\<lparr>trace := trace ?s1 @ [Ev (Inspect ?n) None, Ev (Remove ?n) r]\<rparr>"
      note st = startRell_stale[OF d Inr False r_def s3_def]
      have r: "r = None" using st ok by (cases r) simp_all
      have "startRell E tag s = rellCreateStart E tag (?s1\<lparr>trace := trace ?s1 @ [Ev (Inspect ?n) None, Ev (Remove ?n) r]\<rparr>)"
        using st r by (simp add: s3_def)
      from tail[OF this] Inr False have "\<exists>new. ?P new" by (simp add: wasRunning_def)
      then show ?thesis using d by blast
    qed
  next
    case (Inl e)
    show ?thesis
    proof (cases "e = ErrNotFound")
      case True
      have "startRell E tag s = rellCreateStart E tag (?s1\<lparr>trace := trace ?s1 @ [Ev (Inspect ?n) (Some ErrNotFound)]\<rparr>)"
        using startRell_absent[OF d] Inl True by simp
      from tail[OF this] Inl have "\<exists>new. ?P new" by (simp add: wasRunning_def)
      then show ?thesis using d by blast
    next
      case False
      from startRell_inspect_error[OF d Inl False] ok show ?thesis by simp
    qed
  qed
qed

text \<open>
  Claim C6, as amended. When the client is there and the inspection reports the
  container of the tag running, \<^verbatim>\<open>startRell\<close> returns nil after that one call. So
  when a first invocation has returned nil and the daemon then reports the
  container running, a second invocation adds one inspection to the trace and
  nothing else; the two invocations together have made one creation and one start
  when the container was not reported running before the first, and none when it was.
\<close>

theorem startRell_idempotent:
  assumes first: "fst (startRell E tag s) = None"
    and again: "on_inspect E (trace (snd (startRell E tag s))) (containerNameForTag tag) = Inr ci" "Running ci"
  shows "startRell E tag (snd (startRell E tag s)) =
           (None, (snd (startRell E tag s))\<lparr>trace := trace (snd (startRell E tag s)) @
                     [Ev (Inspect (containerNameForTag tag)) None]\<rparr>) \<and>
         trace (snd (startRell E tag (snd (startRell E tag s)))) =
           trace s @ newEvents s (snd (startRell E tag (snd (startRell E tag s)))) \<and>
         creates (newEvents s (snd (startRell E tag (snd (startRell E tag s))))) =
           (if wasRunning E (containerNameForTag tag) s then 0 else 1) \<and>
         starts (newEvents s (snd (startRell E tag (snd (startRell E tag s))))) =
           (if wasRunning E (containerNameForTag tag) s then 0 else 1) \<and>
         (\<forall>s' ci'. snd (fst (docker E s')) = None \<and>
             on_inspect E (trace (snd (docker E s'))) (containerNameForTag tag) = Inr ci' \<and> Running ci' \<longrightarrow>
             startRell E tag s' =
               (None, (snd (docker E s'))\<lparr>trace := trace (snd (docker E s')) @
                         [Ev (Inspect (containerNameForTag tag)) None]\<rparr>))"
proof -
  let ?n = "containerNameForTag tag"
  let ?s0 = "snd (docker E s)"
  let ?s1 = "snd (startRell E tag s)"
  from startRell_success[OF first] obtain new where
    d: "snd (fst (docker E s)) = None"
    and s1: "?s1 = ?s0\<lparr>trace := trace ?s0 @ new\<rparr>"
    and c: "creates new = (if wasRunning E ?n s then 0 else 1)"
    and st: "starts new = (if wasRunning E ?n s then 0 else 1)"
    by (elim exE conjE)
  from docker_frame[of E s] obtain dial where
    dial: "trace ?s0 = trace s @ dial" "\<forall>ev\<in>set dial. \<exists>u. call_of ev = Dial u"
    by (elim exE conjE)
  have dep: "deploy ?s1 = deploy ?s0" by (subst s1) simp
  have again_d: "docker E ?s1 = (fst (docker E s), ?s1)" by (rule docker_again[OF dep])
  have d1: "snd (fst (docker E ?s1)) = None" using again_d d by simp
  have s11: "snd (docker E ?s1) = ?s1" using again_d by simp
  have i1: "on_inspect E (trace (snd (docker E ?s1))) ?n = Inr ci" using again(1) s11 by simp
  have second: "startRell E tag ?s1 = (None, ?s1\<lparr>trace := trace ?s1 @ [Ev (Inspect ?n) None]\<rparr>)"
    using startRell_running[OF d1 i1 again(2)] s11 by simp
  have tr: "trace (snd (startRell E tag ?s1)) = trace s @ (dial @ new @ [Ev (Inspect ?n) None])"
    by (subst second, subst s1) (simp add: dial(1))
  have ne: "newEvents s (snd (startRell E tag ?s1)) = dial @ new @ [Ev (Inspect ?n) None]"
    by (rule newEvents_append[OF tr])
  have 2: "trace (snd (startRell E tag ?s1)) = trace s @ newEvents s (snd (startRell E tag ?s1))"
    unfolding ne by (rule tr)
  have 3: "creates (newEvents s (snd (startRell E tag ?s1))) = (if wasRunning E ?n s then 0 else 1)"
    unfolding ne using c dial_counts[OF dial(2)] by simp
  have 4: "starts (newEvents s (snd (startRell E tag ?s1))) = (if wasRunning E ?n s then 0 else 1)"
    unfolding ne using st dial_counts[OF dial(2)] by simp
  have 5: "\<forall>s' ci'. snd (fst (docker E s')) = None \<and>
             on_inspect E (trace (snd (docker E s'))) ?n = Inr ci' \<and> Running ci' \<longrightarrow>
             startRell E tag s' =
               (None, (snd (docker E s'))\<lparr>trace := trace (snd (docker E s')) @ [Ev (Inspect ?n) None]\<rparr>)"
    using startRell_running by blast
  show ?thesis using second 2 3 4 5 by (intro conjI)
qed

lemmas start_defs = startRell_def startRedis_def rellCreateStart_def redisCreateStart_def rellEnv_def
  rellEnvFile_def rellUser_def redisContainerLink_def redisContainerName_def redisImage_def
  redisDataBind_def TrimSpace_examples

theorem startRell_idempotent_witness:
  "fst (startRell env_fresh ''v42'' state1) = None \<and>
   on_inspect env_fresh (trace (snd (startRell env_fresh ''v42'' state1))) (containerNameForTag ''v42'') = Inr ci_up \<and>
   Running ci_up \<and> \<not> wasRunning env_fresh (containerNameForTag ''v42'') state1 \<and>
   fst (startRell env_fresh ''v42'' (snd (startRell env_fresh ''v42'' state1))) = None \<and>
   creates (newEvents state1 (snd (startRell env_fresh ''v42'' (snd (startRell env_fresh ''v42'' state1))))) = 1 \<and>
   starts (newEvents state1 (snd (startRell env_fresh ''v42'' (snd (startRell env_fresh ''v42'' state1))))) = 1"
proof -
  have tr: "trace (snd (startRell env_fresh ''v42'' state1)) =
     [Ev (Dial ''unix:///var/run/docker.sock'') None,
      Ev (Inspect ''rell-v42'') (Some ErrNotFound),
      Ev (ReadFile ''/etc/conf.d/rell'') None,
      Ev (Create \<lparr>User = ''15151'', Image_cfg = ''daaku/rell:v42'', Env = [''PORT=43600'']\<rparr> ''rell-v42'') None,
      Ev (Start ''id-rell-v42'' \<lparr>Binds = [], Links = [''redis:redis'']\<rparr>) None]"
    by (simp add: start_defs prim_defs Let_def const_defs
          env_fresh_def env0_def state1_def state0_def deploy0_def ci_up_def)
  have h1: "fst (startRell env_fresh ''v42'' state1) = None"
    by (simp add: start_defs prim_defs Let_def const_defs
          env_fresh_def env0_def state1_def state0_def deploy0_def ci_up_def)
  have h2: "on_inspect env_fresh (trace (snd (startRell env_fresh ''v42'' state1))) (containerNameForTag ''v42'') = Inr ci_up"
    unfolding tr by (simp add: env_fresh_def)
  have h3: "Running ci_up" by (simp add: ci_up_def)
  have w: "\<not> wasRunning env_fresh (containerNameForTag ''v42'') state1"
    by (simp add: wasRunning_def prim_defs Let_def env_fresh_def env0_def state1_def state0_def deploy0_def)
  note T = startRell_idempotent[OF h1 h2 h3]
  have c1: "fst (startRell env_fresh ''v42'' (snd (startRell env_fresh ''v42'' state1))) = None"
    using T[THEN conjunct1] by simp
  have c2: "creates (newEvents state1 (snd (startRell env_fresh ''v42'' (snd (startRell env_fresh ''v42'' state1))))) = 1"
    using T[THEN conjunct2, THEN conjunct2, THEN conjunct1] w by simp
  have c3: "starts (newEvents state1 (snd (startRell env_fresh ''v42'' (snd (startRell env_fresh ''v42'' state1))))) = 1"
    using T[THEN conjunct2, THEN conjunct2, THEN conjunct2, THEN conjunct1] w by simp
  show ?thesis using h1 h2 h3 w c1 c2 c3 by (intro conjI)
qed

theorem startRell_twice_counterexample:
  "fst (startRell env_up ''v42'' state1) = None \<and>
   fst (startRell env_up ''v42'' (snd (startRell env_up ''v42'' state1))) = None \<and>
   trace (snd (startRell env_up ''v42'' (snd (startRell env_up ''v42'' state1)))) =
     [Ev (Dial ''unix:///var/run/docker.sock'') None,
      Ev (Inspect ''rell-v42'') None, Ev (Inspect ''rell-v42'') None] \<and>
   creates (newEvents state1 (snd (startRell env_up ''v42'' (snd (startRell env_up ''v42'' state1))))) \<noteq> 1 \<and>
   starts (newEvents state1 (snd (startRell env_up ''v42'' (snd (startRell env_up ''v42'' state1))))) \<noteq> 1"
proof -
  have s1: "startRell env_up ''v42'' state1 =
     (None, state1\<lparr>deploy := deploy0\<lparr>client := Some (DockerClient ''unix:///var/run/docker.sock''),
                                       clientErr := None, clientOnce := True\<rparr>,
                    trace := [Ev (Dial ''unix:///var/run/docker.sock'') None, Ev (Inspect ''rell-v42'') None]\<rparr>)"
    by (simp add: start_defs prim_defs Let_def const_defs
          env_up_def env0_def state1_def state0_def deploy0_def ci_up_def)
  have s2: "startRell env_up ''v42'' (snd (startRell env_up ''v42'' state1)) =
     (None, state1\<lparr>deploy := deploy0\<lparr>client := Some (DockerClient ''unix:///var/run/docker.sock''),
                                       clientErr := None, clientOnce := True\<rparr>,
                    trace := [Ev (Dial ''unix:///var/run/docker.sock'') None, Ev (Inspect ''rell-v42'') None,
                              Ev (Inspect ''rell-v42'') None]\<rparr>)"
    unfolding s1
    by (simp add: start_defs prim_defs Let_def const_defs
          env_up_def env0_def state1_def state0_def deploy0_def ci_up_def)
  show ?thesis
    unfolding s2 unfolding s1
    by (simp add: newEvents_def state1_def state0_def)
qed

subsection \<open>Promotion\<close>

lemma prodConfPath_literal: "prodConfPath = ''/etc/nginx/server/rell-prod.conf''"
  by (simp add: prodConfPath_def prodNginxConfFile_def filepath_Join_plain)

lemma prod_tag_paths: "prodConfPath \<noteq> lastDeployTagFile" "lastDeployTagFile \<noteq> prodConfPath"
  by (simp_all add: prodConfPath_literal lastDeployTagFile_def)

lemma tag_dir: "filepath_Dir lastDeployTagFile = ''/var/lib/rell''"
  by (simp add: filepath_Dir_def lastDeployTagFile_def Clean_def)

lemma switchProd_paths:
  "trace (snd (switchProd E tag s)) = trace s @ newEvents s (snd (switchProd E tag s)) \<and>
   (fst (switchProd E tag s) = None \<longrightarrow>
      files (snd (switchProd E tag s)) lastDeployTagFile = Some tag \<and>
      files (snd (switchProd E tag s)) prodConfPath = Some (prodNginxConf (prodDataFor (deploy s) tag)) \<and>
      map call_of (newEvents s (snd (switchProd E tag s))) =
        [CreateFile prodConfPath, WriteFile prodConfPath (prodNginxConf (prodDataFor (deploy s) tag)),
         CloseFile prodConfPath, MkdirAll (filepath_Dir lastDeployTagFile),
         CreateFile lastDeployTagFile, WriteFile lastDeployTagFile tag, CloseFile lastDeployTagFile]) \<and>
   ((\<nexists>rest. newEvents s (snd (switchProd E tag s)) =
             Ev (CreateFile prodConfPath) None #
             Ev (WriteFile prodConfPath (prodNginxConf (prodDataFor (deploy s) tag))) None #
             Ev (CloseFile prodConfPath) None # rest) \<longrightarrow>
      fst (switchProd E tag s) \<noteq> None \<and>
      files (snd (switchProd E tag s)) lastDeployTagFile = files s lastDeployTagFile \<and>
      (\<forall>ev\<in>set (newEvents s (snd (switchProd E tag s))). pathOf (call_of ev) = Some prodConfPath))"
proof -
  let ?P = prodConfPath
  let ?T = lastDeployTagFile
  let ?text = "prodNginxConf (prodDataFor (deploy s) tag)"
  let ?h1 = "trace s @ [Ev (CreateFile ?P) None]"
  let ?h2 = "?h1 @ [Ev (WriteFile ?P ?text) None]"
  let ?h3 = "?h2 @ [Ev (CloseFile ?P) None]"
  let ?h4 = "?h3 @ [Ev (MkdirAll (filepath_Dir ?T)) (on_fault E ?h3 (MkdirAll (filepath_Dir ?T)))]"
  let ?h5 = "?h4 @ [Ev (CreateFile ?T) None]"
  let ?h6 = "?h5 @ [Ev (WriteFile ?T tag) None]"
  note defs = switchProd_def[unfolded prodConfPath_def[symmetric] prodDataFor_def[symmetric]]
    prim_defs Let_def prod_tag_paths newEvents_def
  show ?thesis
  proof (cases "on_fault E (trace s) (CreateFile ?P)")
    case (Some e)
    then show ?thesis by (simp add: defs)
  next
    case c1: None
    show ?thesis
    proof (cases "on_fault E ?h1 (WriteFile ?P ?text)")
      case (Some e)
      then show ?thesis using c1 by (simp add: defs split: option.splits)
    next
      case c2: None
      show ?thesis
      proof (cases "on_fault E ?h2 (CloseFile ?P)")
        case (Some e)
        then show ?thesis using c1 c2 by (simp add: defs)
      next
        case c3: None
        show ?thesis
        proof (cases "on_fault E ?h4 (CreateFile ?T)")
          case (Some e)
          then show ?thesis using c1 c2 c3 by (simp add: defs)
        next
          case c4: None
          show ?thesis
          proof (cases "on_fault E ?h5 (WriteFile ?T tag)")
            case (Some e)
            then show ?thesis using c1 c2 c3 c4 by (simp add: defs)
          next
            case c5: None
            show ?thesis
            proof (cases "on_fault E ?h6 (CloseFile ?T)")
              case (Some e)
              then show ?thesis using c1 c2 c3 c4 c5 by (simp add: defs)
            next
              case c6: None
              then show ?thesis using c1 c2 c3 c4 c5 by (simp add: defs)
            qed
          qed
        qed
      qed
    qed
  qed
qed

text \<open>
  Claim C4. The calls of \<^verbatim>\<open>switchProd\<close> start with the creation, the rendering and
  the closing of the production configuration; unless all three succeed, the run
  returns an error, every call it made is on that file, and the file of the last
  tag is as it was. A call on the file of the last tag therefore comes after the
  production configuration was written and closed. When \<^verbatim>\<open>switchProd\<close> returns nil,
  the file of the last tag holds the tag and nothing else, and the production
  configuration is the template rendered with the container name of the tag as
  its backend name.
\<close>

theorem switchProd_config_before_tag:
  "trace (snd (switchProd E tag s)) = trace s @ newEvents s (snd (switchProd E tag s)) \<and>
   ((\<exists>ev\<in>set (newEvents s (snd (switchProd E tag s))). pathOf (call_of ev) \<noteq> Some prodConfPath) \<longrightarrow>
      (\<exists>rest. newEvents s (snd (switchProd E tag s)) =
             Ev (CreateFile prodConfPath) None #
             Ev (WriteFile prodConfPath (prodNginxConf (prodDataFor (deploy s) tag))) None #
             Ev (CloseFile prodConfPath) None # rest)) \<and>
   ((\<nexists>rest. newEvents s (snd (switchProd E tag s)) =
             Ev (CreateFile prodConfPath) None #
             Ev (WriteFile prodConfPath (prodNginxConf (prodDataFor (deploy s) tag))) None #
             Ev (CloseFile prodConfPath) None # rest) \<longrightarrow>
      fst (switchProd E tag s) \<noteq> None \<and>
      files (snd (switchProd E tag s)) lastDeployTagFile = files s lastDeployTagFile) \<and>
   (fst (switchProd E tag s) = None \<longrightarrow>
      files (snd (switchProd E tag s)) lastDeployTagFile = Some tag \<and>
      files (snd (switchProd E tag s)) prodConfPath = Some (prodNginxConf (prodDataFor (deploy s) tag)) \<and>
      p_BackendName (prodDataFor (deploy s) tag) = containerNameForTag tag \<and>
      map call_of (newEvents s (snd (switchProd E tag s))) =
        [CreateFile prodConfPath, WriteFile prodConfPath (prodNginxConf (prodDataFor (deploy s) tag)),
         CloseFile prodConfPath, MkdirAll (filepath_Dir lastDeployTagFile),
         CreateFile lastDeployTagFile, WriteFile lastDeployTagFile tag, CloseFile lastDeployTagFile])"
proof -
  note P = switchProd_paths[of E tag s]
  have 1: "trace (snd (switchProd E tag s)) = trace s @ newEvents s (snd (switchProd E tag s))"
    using P by (rule conjunct1)
  note F = P[THEN conjunct2, THEN conjunct2]
  have 2: "(\<exists>ev\<in>set (newEvents s (snd (switchProd E tag s))). pathOf (call_of ev) \<noteq> Some prodConfPath) \<longrightarrow>
      (\<exists>rest. newEvents s (snd (switchProd E tag s)) =
             Ev (CreateFile prodConfPath) None #
             Ev (WriteFile prodConfPath (prodNginxConf (prodDataFor (deploy s) tag))) None #
             Ev (CloseFile prodConfPath) None # rest)"
    using F by blast
  have 3: "(\<nexists>rest. newEvents s (snd (switchProd E tag s)) =
             Ev (CreateFile prodConfPath) None #
             Ev (WriteFile prodConfPath (prodNginxConf (prodDataFor (deploy s) tag))) None #
             Ev (CloseFile prodConfPath) None # rest) \<longrightarrow>
      fst (switchProd E tag s) \<noteq> None \<and>
      files (snd (switchProd E tag s)) lastDeployTagFile = files s lastDeployTagFile"
    using F by blast
  have 4: "fst (switchProd E tag s) = None \<longrightarrow>
      files (snd (switchProd E tag s)) lastDeployTagFile = Some tag \<and>
      files (snd (switchProd E tag s)) prodConfPath = Some (prodNginxConf (prodDataFor (deploy s) tag)) \<and>
      p_BackendName (prodDataFor (deploy s) tag) = containerNameForTag tag \<and>
      map call_of (newEvents s (snd (switchProd E tag s))) =
        [CreateFile prodConfPath, WriteFile prodConfPath (prodNginxConf (prodDataFor (deploy s) tag)),
         CloseFile prodConfPath, MkdirAll (filepath_Dir lastDeployTagFile),
         CreateFile lastDeployTagFile, WriteFile lastDeployTagFile tag, CloseFile lastDeployTagFile]"
    using P[THEN conjunct2, THEN conjunct1] by (simp add: prodDataFor_def)
  show ?thesis using 1 2 3 4 by (intro conjI)
qed

theorem switchProd_config_before_tag_witness:
  "fst (switchProd env0 ''v42'' state1) = None \<and>
   files (snd (switchProd env0 ''v42'' state1)) ''/var/lib/rell/production-tag'' = Some ''v42'' \<and>
   files (snd (switchProd env0 ''v42'' state1)) ''/etc/nginx/server/rell-prod.conf'' =
     Some (prodNginxConf (prodDataFor deploy0 ''v42'')) \<and>
   p_BackendName (prodDataFor deploy0 ''v42'') = ''rell-v42'' \<and>
   map call_of (newEvents state1 (snd (switchProd env0 ''v42'' state1))) =
     [CreateFile ''/etc/nginx/server/rell-prod.conf'',
      WriteFile ''/etc/nginx/server/rell-prod.conf'' (prodNginxConf (prodDataFor deploy0 ''v42'')),
      CloseFile ''/etc/nginx/server/rell-prod.conf'', MkdirAll ''/var/lib/rell'',
      CreateFile ''/var/lib/rell/production-tag'', WriteFile ''/var/lib/rell/production-tag'' ''v42'',
      CloseFile ''/var/lib/rell/production-tag'']"
proof -
  have ok: "fst (switchProd env0 ''v42'' state1) = None"
    by (simp add: switchProd_def prim_defs Let_def env0_def split: option.splits)
  have d: "deploy state1 = deploy0" by (simp add: state1_def state0_def)
  have pp: "prodConfPath = ''/etc/nginx/server/rell-prod.conf''"
    by (rule prodConfPath_literal)
  have bn: "containerNameForTag ''v42'' = ''rell-v42''" by (simp add: const_defs)
  note W = switchProd_config_before_tag[of env0 "''v42''" state1, THEN conjunct2, THEN conjunct2,
             THEN conjunct2, THEN mp, OF ok]
  show ?thesis using ok W by (simp add: d pp bn tag_dir[unfolded lastDeployTagFile_def] lastDeployTagFile_def)
qed

subsection \<open>Writing the configuration of a release\<close>

lemmas file_defs = os_Create_def template_Execute_def file_Write_def file_Close_def os_Remove_def
  os_MkdirAll_def plain_call_def record_call_def appendTo_def

lemma genTagNginxConf_paths:
  assumes d: "snd (fst (docker E s)) = None"
    and i: "on_inspect E (trace (snd (docker E s))) (containerNameForTag tag) = Inr ci"
  shows "trace (snd (genTagNginxConf E tag s)) =
           trace (snd (docker E s)) @ newEvents (snd (docker E s)) (snd (genTagNginxConf E tag s)) \<and>
         (\<forall>e. on_fault E (trace (snd (docker E s)) @ [Ev (Inspect (containerNameForTag tag)) None])
                (CreateFile (containerNginxConfPath (containerNameForTag tag))) = Some e \<longrightarrow>
              fst (genTagNginxConf E tag s) = Some (Wrap e) \<and>
              files (snd (genTagNginxConf E tag s)) = files s) \<and>
         (\<forall>e. on_fault E (trace (snd (docker E s)) @ [Ev (Inspect (containerNameForTag tag)) None])
                (CreateFile (containerNginxConfPath (containerNameForTag tag))) = None \<and>
              on_fault E (trace (snd (docker E s)) @ [Ev (Inspect (containerNameForTag tag)) None,
                   Ev (CreateFile (containerNginxConfPath (containerNameForTag tag))) None])
                (WriteFile (containerNginxConfPath (containerNameForTag tag))
                   (tagNginxConf (tagDataFor (deploy s) tag ci))) = Some e \<longrightarrow>
              fst (genTagNginxConf E tag s) = Some (Wrap e) \<and>
              (\<exists>rc rr. newEvents (snd (docker E s)) (snd (genTagNginxConf E tag s)) =
                 [Ev (Inspect (containerNameForTag tag)) None,
                  Ev (CreateFile (containerNginxConfPath (containerNameForTag tag))) None,
                  Ev (WriteFile (containerNginxConfPath (containerNameForTag tag))
                        (tagNginxConf (tagDataFor (deploy s) tag ci))) (Some e),
                  Ev (CloseFile (containerNginxConfPath (containerNameForTag tag))) rc,
                  Ev (RemoveFile (containerNginxConfPath (containerNameForTag tag))) rr] \<and>
                 (rr = None \<longrightarrow>
                    files (snd (genTagNginxConf E tag s)) (containerNginxConfPath (containerNameForTag tag)) = None))) \<and>
         (\<forall>e. on_fault E (trace (snd (docker E s)) @ [Ev (Inspect (containerNameForTag tag)) None])
                (CreateFile (containerNginxConfPath (containerNameForTag tag))) = None \<and>
              on_fault E (trace (snd (docker E s)) @ [Ev (Inspect (containerNameForTag tag)) None,
                   Ev (CreateFile (containerNginxConfPath (containerNameForTag tag))) None])
                (WriteFile (containerNginxConfPath (containerNameForTag tag))
                   (tagNginxConf (tagDataFor (deploy s) tag ci))) = None \<and>
              on_fault E (trace (snd (docker E s)) @ [Ev (Inspect (containerNameForTag tag)) None,
                   Ev (CreateFile (containerNginxConfPath (containerNameForTag tag))) None,
                   Ev (WriteFile (containerNginxConfPath (containerNameForTag tag))
                        (tagNginxConf (tagDataFor (deploy s) tag ci))) None])
                (CloseFile (containerNginxConfPath (containerNameForTag tag))) = Some e \<longrightarrow>
              fst (genTagNginxConf E tag s) = Some (Wrap e) \<and>
              files (snd (genTagNginxConf E tag s)) (containerNginxConfPath (containerNameForTag tag)) =
                Some (tagNginxConf (tagDataFor (deploy s) tag ci))) \<and>
         (fst (genTagNginxConf E tag s) = None \<longrightarrow>
              files (snd (genTagNginxConf E tag s)) (containerNginxConfPath (containerNameForTag tag)) =
                Some (tagNginxConf (tagDataFor (deploy s) tag ci)))"
proof -
  let ?n = "containerNameForTag tag"
  let ?F = "containerNginxConfPath ?n"
  let ?s1 = "snd (docker E s)"
  have cfg: "ServerSuffix (deploy ?s1) = ServerSuffix (deploy s)" "CertFile (deploy ?s1) = CertFile (deploy s)"
    "KeyFile (deploy ?s1) = KeyFile (deploy s)"
    by (simp_all add: docker_def Let_def record_call_def split: sum.splits)
  have fl: "files ?s1 = files s" using docker_frame[of E s] by blast
  let ?text = "tagNginxConf (tagDataFor (deploy s) tag ci)"
  let ?h0 = "trace ?s1 @ [Ev (Inspect ?n) None]"
  let ?h1 = "?h0 @ [Ev (CreateFile ?F) None]"
  from docker_split[OF d] obtain c where dk: "docker E s = ((c, None), ?s1)" .
  have run: "genTagNginxConf E tag s =
     (case os_Create E ?F (?s1\<lparr>trace := ?h0\<rparr>) of
        (Some err, s3) \<Rightarrow> (Some (Wrap err), s3)
      | (None, s3) \<Rightarrow>
          (case template_Execute E tagNginxConf ?F (tagDataFor (deploy s) tag ci) s3 of
             (Some err, s4) \<Rightarrow>
               (case file_Close E ?F s4 of
                  (_, s5) \<Rightarrow> (case os_Remove E ?F s5 of (_, s6) \<Rightarrow> (Some (Wrap err), s6)))
           | (None, s4) \<Rightarrow>
               (case file_Close E ?F s4 of
                  (Some err, s5) \<Rightarrow> (Some (Wrap err), s5)
                | (None, s5) \<Rightarrow> (None, s5))))"
    unfolding genTagNginxConf_def tagDataFor_def
    by (subst dk)
       (simp add: InspectContainer_def Let_def record_call_def err_of_def i cfg
             cong del: prod.case_cong_weak option.case_cong_weak)
  note defs = file_defs Let_def newEvents_def fl
  show ?thesis
  proof (cases "on_fault E ?h0 (CreateFile ?F)")
    case (Some e)
    then show ?thesis unfolding run by (simp add: defs)
  next
    case c1: None
    show ?thesis
    proof (cases "on_fault E ?h1 (WriteFile ?F ?text)")
      case (Some e)
      then show ?thesis unfolding run using c1 by (simp add: defs split: option.splits)
    next
      case c2: None
      show ?thesis
      proof (cases "on_fault E (?h1 @ [Ev (WriteFile ?F ?text) None]) (CloseFile ?F)")
        case (Some e)
        then show ?thesis unfolding run using c1 c2 by (simp add: defs)
      next
        case None
        then show ?thesis unfolding run using c1 c2 by (simp add: defs)
      qed
    qed
  qed
qed

text \<open>
  Claim C5 at a disk where closing the file fails: the file has been created and
  the template rendered into it, \<^verbatim>\<open>genTagNginxConf\<close> returns the error of the close,
  and the file is still there with the rendered text. The path of the render
  failure closes and removes the file; the path of the close failure returns at once.
\<close>

theorem genTagNginxConf_close_failure_leaves_file:
  "files state1 ''/etc/nginx/server/rell-v42.conf'' = None \<and>
   fst (genTagNginxConf env_closefail ''v42'' state1) = Some (Wrapped (Errno ''EIO'')) \<and>
   map call_of (newEvents state1 (snd (genTagNginxConf env_closefail ''v42'' state1))) =
     [Dial ''unix:///var/run/docker.sock'', Inspect ''rell-v42'',
      CreateFile ''/etc/nginx/server/rell-v42.conf'',
      WriteFile ''/etc/nginx/server/rell-v42.conf'' (tagNginxConf (tagDataFor deploy0 ''v42'' ci_up)),
      CloseFile ''/etc/nginx/server/rell-v42.conf''] \<and>
   files (snd (genTagNginxConf env_closefail ''v42'' state1)) ''/etc/nginx/server/rell-v42.conf'' =
     Some (tagNginxConf (tagDataFor deploy0 ''v42'' ci_up))"
proof -
  have run: "genTagNginxConf env_closefail ''v42'' state1 =
     (Some (Wrapped (Errno ''EIO'')),
      state1\<lparr>deploy := deploy0\<lparr>client := Some (DockerClient ''unix:///var/run/docker.sock''),
                                    clientErr := None, clientOnce := True\<rparr>,
              trace := [Ev (Dial ''unix:///var/run/docker.sock'') None, Ev (Inspect ''rell-v42'') None,
                        Ev (CreateFile ''/etc/nginx/server/rell-v42.conf'') None,
                        Ev (WriteFile ''/etc/nginx/server/rell-v42.conf''
                              (tagNginxConf (tagDataFor deploy0 ''v42'' ci_up))) None,
                        Ev (CloseFile ''/etc/nginx/server/rell-v42.conf'') (Some (Errno ''EIO''))],
              files := (files state1)(''/etc/nginx/server/rell-v42.conf'' \<mapsto>
                          tagNginxConf (tagDataFor deploy0 ''v42'' ci_up))\<rparr>)"
    by (simp add: genTagNginxConf_def prim_defs Let_def const_defs tagDataFor_def
          env_closefail_def env_up_def env0_def state1_def state0_def deploy0_def ci_up_def)
  show ?thesis
    unfolding run by (simp add: newEvents_def state1_def state0_def)
qed

text \<open>
  What the code does do for claim C5. When the file has been created and the
  rendering fails, \<^verbatim>\<open>genTagNginxConf\<close> closes the file, calls \<^verbatim>\<open>os.Remove\<close> on it and
  returns the error of the rendering, wrapped; the file is gone unless that
  \<^verbatim>\<open>os.Remove\<close> fails, whose error is dropped. When it returns nil, the file holds the
  rendered template.
\<close>

theorem genTagNginxConf_render_failure:
  assumes "snd (fst (docker E s)) = None"
    and "on_inspect E (trace (snd (docker E s))) (containerNameForTag tag) = Inr ci"
  shows "(\<forall>e. on_fault E (trace (snd (docker E s)) @ [Ev (Inspect (containerNameForTag tag)) None])
                (CreateFile (containerNginxConfPath (containerNameForTag tag))) = None \<and>
              on_fault E (trace (snd (docker E s)) @ [Ev (Inspect (containerNameForTag tag)) None,
                   Ev (CreateFile (containerNginxConfPath (containerNameForTag tag))) None])
                (WriteFile (containerNginxConfPath (containerNameForTag tag))
                   (tagNginxConf (tagDataFor (deploy s) tag ci))) = Some e \<longrightarrow>
              fst (genTagNginxConf E tag s) = Some (Wrap e) \<and>
              (\<exists>rc rr. newEvents (snd (docker E s)) (snd (genTagNginxConf E tag s)) =
                 [Ev (Inspect (containerNameForTag tag)) None,
                  Ev (CreateFile (containerNginxConfPath (containerNameForTag tag))) None,
                  Ev (WriteFile (containerNginxConfPath (containerNameForTag tag))
                        (tagNginxConf (tagDataFor (deploy s) tag ci))) (Some e),
                  Ev (CloseFile (containerNginxConfPath (containerNameForTag tag))) rc,
                  Ev (RemoveFile (containerNginxConfPath (containerNameForTag tag))) rr] \<and>
                 (rr = None \<longrightarrow>
                    files (snd (genTagNginxConf E tag s)) (containerNginxConfPath (containerNameForTag tag)) = None))) \<and>
         (fst (genTagNginxConf E tag s) = None \<longrightarrow>
              files (snd (genTagNginxConf E tag s)) (containerNginxConfPath (containerNameForTag tag)) =
                Some (tagNginxConf (tagDataFor (deploy s) tag ci)))"
  using genTagNginxConf_paths[OF assms]
  by (elim conjE) (intro conjI; assumption)

theorem genTagNginxConf_render_failure_witness:
  "snd (fst (docker env_writefail state1)) = None \<and>
   on_inspect env_writefail (trace (snd (docker env_writefail state1))) (containerNameForTag ''v42'') = Inr ci_up \<and>
   fst (genTagNginxConf env_writefail ''v42'' state1) = Some (Wrapped (Errno ''ENOSPC'')) \<and>
   (\<exists>rc rr. newEvents (snd (docker env_writefail state1)) (snd (genTagNginxConf env_writefail ''v42'' state1)) =
       [Ev (Inspect (containerNameForTag ''v42'')) None,
        Ev (CreateFile (containerNginxConfPath (containerNameForTag ''v42''))) None,
        Ev (WriteFile (containerNginxConfPath (containerNameForTag ''v42''))
              (tagNginxConf (tagDataFor (deploy state1) ''v42'' ci_up))) (Some (Errno ''ENOSPC'')),
        Ev (CloseFile (containerNginxConfPath (containerNameForTag ''v42''))) rc,
        Ev (RemoveFile (containerNginxConfPath (containerNameForTag ''v42''))) rr] \<and>
       (rr = None \<longrightarrow>
          files (snd (genTagNginxConf env_writefail ''v42'' state1))
            (containerNginxConfPath (containerNameForTag ''v42'')) = None)) \<and>
   files (snd (genTagNginxConf env_writefail ''v42'' state1)) ''/etc/nginx/server/rell-v42.conf'' = None"
proof -
  have d: "snd (fst (docker env_writefail state1)) = None"
    by (simp add: prim_defs Let_def env_writefail_def env_up_def env0_def state1_def state0_def deploy0_def)
  have i: "on_inspect env_writefail (trace (snd (docker env_writefail state1))) (containerNameForTag ''v42'') = Inr ci_up"
    by (simp add: env_writefail_def env_up_def)
  have c1: "on_fault env_writefail h (CreateFile p) = None" for h p
    by (simp add: env_writefail_def)
  have c2: "on_fault env_writefail h (WriteFile p b) = Some (Errno ''ENOSPC'')" for h p b
    by (simp add: env_writefail_def)
  note A = genTagNginxConf_render_failure[OF d i, THEN conjunct1, THEN spec[where x = "Errno ''ENOSPC''"],
             THEN mp, OF conjI[OF c1 c2]]
  have gone: "files (snd (genTagNginxConf env_writefail ''v42'' state1)) ''/etc/nginx/server/rell-v42.conf'' = None"
    by (simp add: genTagNginxConf_def prim_defs Let_def const_defs
          env_writefail_def env_up_def env0_def state1_def state0_def deploy0_def ci_up_def
          split: option.splits)
  show ?thesis using d i A gone by (simp del: ex_simps)
qed

end
